theory Spec2Isabelle
  imports Complex_Main
begin

section \<open>Conventions\<close>

text \<open>
  The notebooks compute with 32-bit floating point tensors. Here a tensor entry is a
  \<^typ>\<open>real\<close>: every statement below is about the exact values the expressions of the
  notebooks denote, not about their rounding. A one-dimensional tensor is a list, a tensor
  of shape \<open>(a, b, c)\<close> a list of \<open>a\<close> lists of \<open>b\<close> lists of length \<open>c\<close>.
  Errors of the tensor library are values of the type \<open>error\<close>.
\<close>

datatype error = IndexError | RuntimeError | ValueError

type_synonym tensor1 = "real list"
type_synonym tensor3 = "real list list list"

text \<open>
  \<open>torch.linspace(a, b, n)\<close>: \<open>n\<close> equidistant points from \<open>a\<close> to \<open>b\<close>, both ends
  included; a single point is the start, no point is the empty tensor.
\<close>

definition linspace :: "real \<Rightarrow> real \<Rightarrow> nat \<Rightarrow> tensor1" where
  "linspace a b n =
     (if n = 1 then [a]
      else map (\<lambda>i. a + real i * ((b - a) / real (n - 1))) [0..<n])"

lemma length_linspace: "length (linspace a b n) = n"
  by (simp add: linspace_def)

lemma nth_linspace:
  "i < n \<Longrightarrow> 1 < n \<Longrightarrow> linspace a b n ! i = a + real i * ((b - a) / real (n - 1))"
  by (simp add: linspace_def)

section \<open>Constants of the exercise notebooks\<close>

text \<open>
  Exercise 1.2 (data driven) and exercise 1.3 (physics informed) start with the same
  parameter cell; exercise 1.3 fixes \<open>D\<close>.
\<close>

definition t_min :: real where "t_min = 0.0"
definition t_max :: real where "t_max = 3.0"
definition D_min :: real where "D_min = 0.01"
definition D_max :: real where "D_max = 1.0"
definition g :: real where "g = 9.81"
definition H :: real where "H = 50.0"
definition D :: real where "D = 0.02"

definition N_D_train :: nat where "N_D_train = 500"
definition N_t_train :: nat where "N_t_train = 50"
definition N_D_test :: nat where "N_D_test = 25"
definition N_t_test :: nat where "N_t_test = 50"
definition N_t :: nat where "N_t = 50"
definition train_iterations :: nat where "train_iterations = 5000"

section \<open>The reference solution of the falling body\<close>

text \<open>
  The closed form as the exercise sheets and the specification print it:
  \<open>u(t; D) = 1/D (ln ((1 + e^(-2 sqrt(D g) t)) / 2) - sqrt(D g) t) + H\<close>.
\<close>

definition u_closed :: "real \<Rightarrow> real \<Rightarrow> real" where
  "u_closed x d = 1 / d * (ln ((1 + exp (- 2 * sqrt (d * g) * x)) / 2) - sqrt (d * g) * x) + H"

text \<open>
  The accuracy check of exercise 1.3:
  \<^verbatim>\<open>
  t_plot = torch.linspace(t_min, t_max, 1000).reshape(-1, 1)
  sqrt_term = math.sqrt(D * g)
  real_out = H - 1/D * (torch.log((1 + torch.exp(-2*sqrt_term*t_plot))/2.0) + sqrt_term*t_plot)
  \<close>
  The tensor operations act entry by entry; \<open>real_out_pt\<close> is the expression at one entry.
\<close>

definition sqrt_term :: real where "sqrt_term = sqrt (D * g)"

definition real_out_pt :: "real \<Rightarrow> real" where
  "real_out_pt x =
     H - 1 / D * (ln ((1 + exp (- 2 * sqrt_term * x)) / 2.0) + sqrt_term * x)"

definition t_plot :: tensor1 where "t_plot = linspace t_min t_max 1000"

definition real_out :: tensor1 where "real_out = map real_out_pt t_plot"

text \<open>The velocity and the acceleration of the reference solution of the code.\<close>

definition real_out_t :: "real \<Rightarrow> real" where
  "real_out_t x = - (sqrt_term / D) * tanh (sqrt_term * x)"

definition real_out_tt :: "real \<Rightarrow> real" where
  "real_out_tt x = - g * (1 - (tanh (sqrt_term * x))\<^sup>2)"

subsection \<open>The two expressions differ in the sign of the logarithm\<close>

lemma sqrt_term_pos: "0 < sqrt_term"
  by (simp add: sqrt_term_def D_def g_def)

lemma sqrt_term_sq: "sqrt_term * sqrt_term = D * g"
  by (simp add: sqrt_term_def D_def g_def)

lemma log_term_zero_iff:
  fixes s x :: real
  assumes s: "0 < s"
  shows "ln ((1 + exp (- 2 * s * x)) / 2) = 0 \<longleftrightarrow> x = 0"
proof -
  have "ln ((1 + exp (- 2 * s * x)) / 2) = 0 \<longleftrightarrow> (1 + exp (- 2 * s * x)) / 2 = 1"
    by (simp add: add_pos_pos)
  also have "\<dots> \<longleftrightarrow> exp (- 2 * s * x) = 1" by auto
  also have "\<dots> \<longleftrightarrow> - 2 * s * x = 0" by (simp only: exp_eq_one_iff)
  also have "\<dots> \<longleftrightarrow> x = 0" using s by simp
  finally show ?thesis .
qed

lemma log_term_neg:
  fixes s x :: real
  assumes "0 < s" "0 < x"
  shows "ln ((1 + exp (- 2 * s * x)) / 2) < 0"
proof -
  have "0 < s * x" using assms by simp
  then have "exp (- 2 * s * x) < 1" by simp
  then have "(1 + exp (- 2 * s * x)) / 2 < 1" by simp
  moreover have "0 < (1 + exp (- 2 * s * x)) / 2" by (simp add: add_pos_pos)
  ultimately show ?thesis by simp
qed

lemma real_out_minus_u_closed:
  "real_out_pt x - u_closed x D = - (2 / D) * ln ((1 + exp (- 2 * sqrt_term * x)) / 2)"
  by (simp add: real_out_pt_def u_closed_def sqrt_term_def algebra_simps)

lemma real_out_eq_u_closed_iff: "real_out_pt x = u_closed x D \<longleftrightarrow> x = 0"
proof -
  have "real_out_pt x = u_closed x D
      \<longleftrightarrow> - (2 / D) * ln ((1 + exp (- 2 * sqrt_term * x)) / 2) = 0"
    using real_out_minus_u_closed[of x] by linarith
  also have "\<dots> \<longleftrightarrow> ln ((1 + exp (- 2 * sqrt_term * x)) / 2) = 0"
    by (simp add: D_def)
  also have "\<dots> \<longleftrightarrow> x = 0" by (rule log_term_zero_iff[OF sqrt_term_pos])
  finally show ?thesis .
qed

subsection \<open>The expression of the code solves the initial value problem\<close>

lemma log_cosh_deriv:
  fixes c s h x :: real
  shows "((\<lambda>x. h - c * (ln ((1 + exp (- 2 * s * x)) / 2) + s * x))
           has_field_derivative - (c * s) * tanh (s * x)) (at x)"
proof -
  have pos: "0 < 1 + exp (- 2 * s * x)" by (simp add: add_pos_pos)
  have rew: "- c * ((- 2 * s * exp (- 2 * s * x)) / (1 + exp (- 2 * s * x)) + s)
      = - (c * s) * tanh (s * x)"
    using pos unfolding tanh_real_altdef
    by (simp add: field_simps)
  have "((\<lambda>x. h - c * (ln ((1 + exp (- 2 * s * x)) / 2) + s * x))
          has_field_derivative
          (- c * ((- 2 * s * exp (- 2 * s * x)) / (1 + exp (- 2 * s * x)) + s))) (at x)"
    using pos by (auto intro!: derivative_eq_intros simp: field_simps)
  then show ?thesis by (simp only: rew)
qed

lemma tanh_scaled_deriv:
  fixes c s x :: real
  shows "((\<lambda>x. c * tanh (s * x)) has_field_derivative
         c * s * (1 - (tanh (s * x))\<^sup>2)) (at x)"
  by (auto intro!: derivative_eq_intros)

lemma real_out_pt_deriv: "(real_out_pt has_field_derivative real_out_t x) (at x)"
  using log_cosh_deriv[of H "1 / D" sqrt_term x]
  unfolding real_out_pt_def[abs_def] real_out_t_def by simp

lemma real_out_t_deriv: "(real_out_t has_field_derivative real_out_tt x) (at x)"
proof -
  have "- (sqrt_term / D) * sqrt_term = - g"
    using sqrt_term_sq by (simp add: D_def)
  then show ?thesis
    using tanh_scaled_deriv[of "- (sqrt_term / D)" sqrt_term x]
    unfolding real_out_t_def[abs_def] real_out_tt_def by simp
qed

lemma real_out_ode: "real_out_tt x = D * (real_out_t x)\<^sup>2 - g"
proof -
  have "D * (real_out_t x)\<^sup>2 = (sqrt_term * sqrt_term) / D * (tanh (sqrt_term * x))\<^sup>2"
    unfolding real_out_t_def by (simp add: power2_eq_square D_def)
  also have "\<dots> = g * (tanh (sqrt_term * x))\<^sup>2"
    by (simp add: sqrt_term_sq D_def)
  finally show ?thesis unfolding real_out_tt_def by (simp add: algebra_simps)
qed

lemma real_out_pt_zero: "real_out_pt 0 = H"
  by (simp add: real_out_pt_def)

lemma real_out_t_zero: "real_out_t 0 = 0"
  by (simp add: real_out_t_def)

text \<open>
  The printed closed form starts with the velocity \<open>- 2 sqrt(D g) / D\<close>, not with \<open>0\<close>:
  it is not the solution of the initial value problem the notebook trains on.
\<close>

lemma log_exp_deriv_printed:
  fixes c s h x :: real
  shows "((\<lambda>x. c * (ln ((1 + exp (- 2 * s * x)) / 2) - s * x) + h)
           has_field_derivative
           c * ((- 2 * s * exp (- 2 * s * x)) / (1 + exp (- 2 * s * x)) - s)) (at x)"
proof -
  have pos: "0 < 1 + exp (- 2 * s * x)" by (simp add: add_pos_pos)
  show ?thesis
    using pos by (auto intro!: derivative_eq_intros simp: field_simps)
qed

lemma u_closed_deriv_zero:
  "((\<lambda>x. u_closed x D) has_field_derivative (- 2 * sqrt_term / D)) (at 0)"
  using log_exp_deriv_printed[of "1 / D" "sqrt (D * g)" H 0]
  unfolding u_closed_def[abs_def] sqrt_term_def by simp

lemma u_closed_initial_velocity_nonzero: "- 2 * sqrt_term / D \<noteq> 0"
  using sqrt_term_pos by (simp add: D_def)

subsection \<open>Claims about the reference solution\<close>

text \<open>
  C1, as stated: for every \<open>t\<close> in \<open>[0, 3]\<close> the reference expression \<open>real_out\<close> of the
  accuracy check and the printed closed form \<open>u(t; D)\<close> with \<open>D = 0.02\<close> are the same
  function of \<open>t\<close>. This fails at \<open>t = 1\<close>.
\<close>

theorem real_out_differs_from_u_closed_at_one:
  "1 \<in> {t_min..t_max} \<and> real_out_pt 1 \<noteq> u_closed 1 D"
  using real_out_eq_u_closed_iff[of 1] by (simp add: t_min_def t_max_def)

text \<open>
  C1, amended: for \<open>t\<close> in \<open>[0, 3]\<close> the two expressions agree at \<open>t = 0\<close> only. They
  differ in the sign of the logarithmic term,
  \<open>real_out(t) = u(t; D) - 2/D ln ((1 + e^(-2 sqrt(D g) t)) / 2)\<close>, so that
  \<open>real_out(t) > u(t; D)\<close> for every \<open>t\<close> in \<open>(0, 3]\<close>.
\<close>

theorem real_out_versus_u_closed:
  assumes "t_min \<le> x" and "x \<le> t_max"
  shows "(real_out_pt x = u_closed x D \<longleftrightarrow> x = 0)
       \<and> real_out_pt x = u_closed x D - 2 / D * ln ((1 + exp (- 2 * sqrt_term * x)) / 2)
       \<and> (0 < x \<longrightarrow> u_closed x D < real_out_pt x)"
proof (intro conjI impI)
  show "real_out_pt x = u_closed x D \<longleftrightarrow> x = 0"
    by (rule real_out_eq_u_closed_iff)
  show "real_out_pt x = u_closed x D - 2 / D * ln ((1 + exp (- 2 * sqrt_term * x)) / 2)"
    using real_out_minus_u_closed[of x] by simp
next
  assume "0 < x"
  then have "ln ((1 + exp (- 2 * sqrt_term * x)) / 2) < 0"
    by (rule log_term_neg[OF sqrt_term_pos])
  then have "0 < - (2 / D) * ln ((1 + exp (- 2 * sqrt_term * x)) / 2)"
    by (simp add: D_def)
  then show "u_closed x D < real_out_pt x"
    using real_out_minus_u_closed[of x] by linarith
qed

theorem real_out_versus_u_closed_witness:
  "t_min \<le> 3 \<and> 3 \<le> t_max \<and> u_closed 3 D < real_out_pt 3 \<and> real_out_pt 3 \<noteq> u_closed 3 D"
proof -
  have a: "t_min \<le> 3" by (simp add: t_min_def)
  have b: "(3::real) \<le> t_max" by (simp add: t_max_def)
  note th = real_out_versus_u_closed[OF a b]
  have c: "u_closed 3 D < real_out_pt 3"
    using conjunct2[OF conjunct2[OF th]] by simp
  then have "real_out_pt 3 \<noteq> u_closed 3 D" by simp
  with a b c show ?thesis by (intro conjI)
qed

text \<open>
  C6: for every \<open>D\<close> in \<open>[0.01, 1.0]\<close> the printed closed form satisfies
  \<open>u(0; D) = H\<close>, and the reference expression of the code, at \<open>t = 0\<close> (the first entry of
  \<open>t_plot\<close>), is \<open>H\<close> as well.
\<close>

theorem initial_height:
  assumes "D_min \<le> d" and "d \<le> D_max"
  shows "u_closed 0 d = H \<and> real_out_pt 0 = H \<and> t_plot ! 0 = 0 \<and> real_out ! 0 = H"
  by (simp add: u_closed_def real_out_pt_def real_out_def t_plot_def linspace_def t_min_def)

theorem initial_height_witness:
  "D_min \<le> D \<and> D \<le> D_max \<and> u_closed 0 D = H \<and> real_out ! 0 = H"
proof -
  have a: "D_min \<le> D" by (simp add: D_min_def D_def)
  have b: "D \<le> D_max" by (simp add: D_max_def D_def)
  show ?thesis using a b initial_height[OF a b] by simp
qed

section \<open>Tensor indexing (exercise 1.1)\<close>

text \<open>
  \<^verbatim>\<open>
  test_tensor = torch.zeros((3, 2, 2))
  test_tensor[0, 0, 0] = 1.0
  test_tensor[0, 0, 1] = 2.0
  test_tensor[2, 1, 0] = 5.0
  \<close>
  An index is a Python integer. The tensor library first unpacks it to 64 bits and
  raises an overflow \<open>ValueError\<close> for an integer below \<open>- 2^63\<close> or at least \<open>2^63\<close>.
  Along an axis of size \<open>n\<close> it then accepts \<open>0, ..., n - 1\<close>, counts a negative index
  \<open>- n, ..., - 1\<close> from the end, and raises \<open>IndexError\<close> for every other integer. The
  indices of a tuple are handled from left to right, each on the axis it selects.
\<close>

definition zeros3 :: "nat \<Rightarrow> nat \<Rightarrow> nat \<Rightarrow> tensor3" where
  "zeros3 a b c = replicate a (replicate b (replicate c 0.0))"

definition has_shape3 :: "nat \<Rightarrow> nat \<Rightarrow> nat \<Rightarrow> 'a list list list \<Rightarrow> bool" where
  "has_shape3 a b c T \<longleftrightarrow>
     length T = a \<and> list_all (\<lambda>m. length m = b \<and> list_all (\<lambda>r. length r = c) m) T"

definition wrap_index :: "nat \<Rightarrow> int \<Rightarrow> error + nat" where
  "wrap_index n i =
     (if i < - (2 ^ 63) \<or> 2 ^ 63 \<le> i then Inl ValueError
      else if 0 \<le> i \<and> i < int n then Inr (nat i)
      else if - int n \<le> i \<and> i < 0 then Inr (nat (i + int n))
      else Inl IndexError)"

definition getitem3 :: "tensor3 \<Rightarrow> int \<Rightarrow> int \<Rightarrow> int \<Rightarrow> error + real" where
  "getitem3 T i j k =
     (case wrap_index (length T) i of
        Inl e \<Rightarrow> Inl e
      | Inr a \<Rightarrow>
          (case wrap_index (length (T ! a)) j of
             Inl e \<Rightarrow> Inl e
           | Inr b \<Rightarrow>
               (case wrap_index (length (T ! a ! b)) k of
                  Inl e \<Rightarrow> Inl e
                | Inr c \<Rightarrow> Inr (T ! a ! b ! c))))"

definition setitem3 :: "tensor3 \<Rightarrow> int \<Rightarrow> int \<Rightarrow> int \<Rightarrow> real \<Rightarrow> error + tensor3" where
  "setitem3 T i j k v =
     (case wrap_index (length T) i of
        Inl e \<Rightarrow> Inl e
      | Inr a \<Rightarrow>
          (case wrap_index (length (T ! a)) j of
             Inl e \<Rightarrow> Inl e
           | Inr b \<Rightarrow>
               (case wrap_index (length (T ! a ! b)) k of
                  Inl e \<Rightarrow> Inl e
                | Inr c \<Rightarrow> Inr (T[a := (T ! a)[b := (T ! a ! b)[c := v]]]))))"

definition bind_err :: "error + 'a \<Rightarrow> ('a \<Rightarrow> error + 'b) \<Rightarrow> error + 'b" where
  "bind_err r f = (case r of Inl e \<Rightarrow> Inl e | Inr x \<Rightarrow> f x)"

definition test_tensor :: "error + tensor3" where
  "test_tensor =
     bind_err (setitem3 (zeros3 3 2 2) 0 0 0 1.0) (\<lambda>T1.
     bind_err (setitem3 T1 0 0 1 2.0) (\<lambda>T2.
     setitem3 T2 2 1 0 5.0))"

lemma has_shape3_iff:
  "has_shape3 a b c T \<longleftrightarrow>
     length T = a \<and> (\<forall>i<a. length (T ! i) = b \<and> (\<forall>j<b. length (T ! i ! j) = c))"
  by (auto simp: has_shape3_def list_all_length)

lemma has_shape3_zeros3: "has_shape3 a b c (zeros3 a b c)"
  by (simp add: has_shape3_iff zeros3_def)

lemma wrap_index_nonneg:
  "0 \<le> i \<Longrightarrow>
   wrap_index n i =
     (if 2 ^ 63 \<le> i then Inl ValueError
      else if i < int n then Inr (nat i)
      else Inl IndexError)"
  by (simp add: wrap_index_def)

lemma wrap_index_bound: "wrap_index n i = Inr a \<Longrightarrow> a < n"
  by (auto simp: wrap_index_def split: if_splits)

lemma setitem3_shape:
  assumes "has_shape3 a b c T" "setitem3 T i j k v = Inr T'"
  shows "has_shape3 a b c T'"
  using assms
  by (auto simp: setitem3_def has_shape3_iff nth_list_update
      split: sum.splits dest!: wrap_index_bound)

lemma getitem3_nonneg:
  assumes sh: "has_shape3 3 2 2 T" and nn: "0 \<le> i" "0 \<le> j" "0 \<le> k"
  shows "getitem3 T i j k =
           (if 2 ^ 63 \<le> i then Inl ValueError
            else if 3 \<le> i then Inl IndexError
            else if 2 ^ 63 \<le> j then Inl ValueError
            else if 2 \<le> j then Inl IndexError
            else if 2 ^ 63 \<le> k then Inl ValueError
            else if 2 \<le> k then Inl IndexError
            else Inr (T ! nat i ! nat j ! nat k))"
proof -
  have l0: "length T = 3" using sh by (simp add: has_shape3_iff)
  show ?thesis
  proof (cases "i < 3")
    case False
    then show ?thesis using nn by (simp add: getitem3_def wrap_index_nonneg l0)
  next
    case i: True
    then have l1: "length (T ! nat i) = 2"
      using sh nn by (simp add: has_shape3_iff)
    show ?thesis
    proof (cases "j < 2")
      case False
      then show ?thesis using nn i by (simp add: getitem3_def wrap_index_nonneg l0 l1)
    next
      case j: True
      then have l2: "length (T ! nat i ! nat j) = 2"
        using sh nn i by (simp add: has_shape3_iff)
      show ?thesis using nn i j by (simp add: getitem3_def wrap_index_nonneg l0 l1 l2)
    qed
  qed
qed

lemma test_tensor_value:
  "test_tensor = Inr [[[1, 2], [0, 0]], [[0, 0], [0, 0]], [[0, 0], [5, 0]]]"
  by (simp add: test_tensor_def bind_err_def setitem3_def wrap_index_def zeros3_def
      numeral_3_eq_3 numeral_2_eq_2)

lemma getitem3_negative_index:
  "getitem3 [[[1, 2], [0, 0]], [[0, 0], [0, 0]], [[0, 0], [5, 0]]] (- 1) (- 1) 0 = Inr 5"
  "getitem3 [[[1, 2], [0, 0]], [[0, 0], [0, 0]], [[0, 0], [5, 0]]] (- 4) 0 0 = Inl IndexError"
  "getitem3 [[[1, 2], [0, 0]], [[0, 0], [0, 0]], [[0, 0], [5, 0]]] (- (2 ^ 63)) 0 0
     = Inl IndexError"
  "getitem3 [[[1, 2], [0, 0]], [[0, 0], [0, 0]], [[0, 0], [5, 0]]] (- (2 ^ 63) - 1) 0 0
     = Inl ValueError"
  by (simp_all add: getitem3_def wrap_index_def)

text \<open>
  C10, as stated: any index at or beyond the size of its axis fails with an
  \<open>IndexError\<close>. The index \<open>2^63\<close> fails with the overflow \<open>ValueError\<close> instead.
\<close>

theorem getitem3_overflow_is_not_IndexError:
  "has_shape3 3 2 2 (zeros3 3 2 2)
   \<and> getitem3 (zeros3 3 2 2) (2 ^ 63) 0 0 = Inl ValueError
   \<and> getitem3 (zeros3 3 2 2) (2 ^ 63) 0 0 \<noteq> Inl IndexError"
  by (simp add: getitem3_nonneg[OF has_shape3_zeros3] has_shape3_zeros3)

text \<open>
  C10, amended: indexing a tensor of shape \<open>(3, 2, 2)\<close> with indices \<open>(i, j, k)\<close>
  counted from \<open>0\<close> returns a value exactly when \<open>i < 3\<close>, \<open>j < 2\<close> and \<open>k < 2\<close>.
  Otherwise no value is returned: the operation fails with an \<open>IndexError\<close> when all
  three indices are below \<open>2^63\<close>, as \<open>test_tensor[3, 0, 0]\<close> does for the tensor of the
  notebook, and with an overflow \<open>ValueError\<close> when the first index that is not below
  the size of its axis is \<open>2^63\<close> or more.
\<close>

theorem getitem3_in_range:
  assumes "has_shape3 3 2 2 T" and "0 \<le> i" and "0 \<le> j" and "0 \<le> k"
  shows "((\<exists>v. getitem3 T i j k = Inr v) \<longleftrightarrow> i < 3 \<and> j < 2 \<and> k < 2)
       \<and> (i < 2 ^ 63 \<and> j < 2 ^ 63 \<and> k < 2 ^ 63 \<and> \<not> (i < 3 \<and> j < 2 \<and> k < 2)
            \<longrightarrow> getitem3 T i j k = Inl IndexError)
       \<and> (2 ^ 63 \<le> i \<or> (i < 3 \<and> 2 ^ 63 \<le> j) \<or> (i < 3 \<and> j < 2 \<and> 2 ^ 63 \<le> k)
            \<longrightarrow> getitem3 T i j k = Inl ValueError)
       \<and> (\<exists>T0. test_tensor = Inr T0 \<and> has_shape3 3 2 2 T0
               \<and> getitem3 T0 3 0 0 = Inl IndexError)"
proof -
  have "\<exists>T0. test_tensor = Inr T0 \<and> has_shape3 3 2 2 T0 \<and> getitem3 T0 3 0 0 = Inl IndexError"
    unfolding test_tensor_value
    by (simp add: has_shape3_def getitem3_def wrap_index_def)
  then show ?thesis
    unfolding getitem3_nonneg[OF assms] by auto
qed

theorem getitem3_in_range_witness:
  "has_shape3 3 2 2 (zeros3 3 2 2) \<and> (0::int) \<le> 2 \<and> (0::int) \<le> 1
   \<and> (\<exists>v. getitem3 (zeros3 3 2 2) 2 1 1 = Inr v)
   \<and> getitem3 (zeros3 3 2 2) 2 1 2 = Inl IndexError
   \<and> getitem3 (zeros3 3 2 2) 2 (2 ^ 63) 1 = Inl ValueError"
proof -
  have sh: "has_shape3 3 2 2 (zeros3 3 2 2)" by (rule has_shape3_zeros3)
  have a: "(0::int) \<le> 2" and b: "(0::int) \<le> 1" and c: "(0::int) \<le> 2 ^ 63" by simp_all
  have "\<exists>v. getitem3 (zeros3 3 2 2) 2 1 1 = Inr v"
    using getitem3_in_range[OF sh a b b] by simp
  moreover have "getitem3 (zeros3 3 2 2) 2 1 2 = Inl IndexError"
    using getitem3_in_range[OF sh a b a] by simp
  moreover have "getitem3 (zeros3 3 2 2) 2 (2 ^ 63) 1 = Inl ValueError"
    using getitem3_in_range[OF sh a c b] by simp
  ultimately show ?thesis using sh by simp
qed

section \<open>Training loops\<close>

text \<open>
  The loops of exercise 1.2 and exercise 1.3:
  \<^verbatim>\<open>
  for t in range(train_iterations):
      model_out = ...; loss = ...          # optimization step
      if t == 0 or t % 250 == 249: print(t, loss.item())

  for k in range(train_iterations):
      ...; total_loss = loss_ode + loss_initial_position + loss_initial_speed
      if k % 250 == 0 or k == train_iterations - 1: print(k, total_loss.item())
      optimizer.zero_grad(); total_loss.backward(); optimizer.step()
  \<close>
  Neither body has a \<open>break\<close> or a test of the loss. What the students fill in, the loss
  of the current parameters and the step of the optimizer, are parameters of the model.
  A state counts the optimizer steps taken and keeps the printed lines.
\<close>

record 'p train_state =
  params :: 'p
  steps :: nat
  printed :: "(nat \<times> real) list"

function for_range :: "nat \<Rightarrow> nat \<Rightarrow> (nat \<Rightarrow> 's \<Rightarrow> 's) \<Rightarrow> 's \<Rightarrow> 's" where
  "for_range k n body s = (if k < n then for_range (Suc k) n body (body k s) else s)"
  by pat_completeness auto
termination
  by (relation "measure (\<lambda>(k, n, body, s). n - k)") auto

declare for_range.simps [simp del]

definition train_step ::
  "(nat \<Rightarrow> bool) \<Rightarrow> ('p \<Rightarrow> real) \<Rightarrow> ('p \<Rightarrow> 'p) \<Rightarrow> nat \<Rightarrow> 'p train_state \<Rightarrow> 'p train_state" where
  "train_step shown loss optimizer_step k s =
     \<lparr>params = optimizer_step (params s),
      steps = Suc (steps s),
      printed = (if shown k then printed s @ [(k, loss (params s))] else printed s)\<rparr>"

definition train_data_driven ::
  "('p \<Rightarrow> real) \<Rightarrow> ('p \<Rightarrow> 'p) \<Rightarrow> 'p train_state \<Rightarrow> 'p train_state" where
  "train_data_driven loss optimizer_step s =
     for_range 0 train_iterations
       (train_step (\<lambda>t. t = 0 \<or> t mod 250 = 249) loss optimizer_step) s"

definition train_physics_informed ::
  "('p \<Rightarrow> real) \<Rightarrow> ('p \<Rightarrow> 'p) \<Rightarrow> 'p train_state \<Rightarrow> 'p train_state" where
  "train_physics_informed loss optimizer_step s =
     for_range 0 train_iterations
       (train_step (\<lambda>k. k mod 250 = 0 \<or> k = train_iterations - 1) loss optimizer_step) s"

text \<open>
  Modelled from the spec: the trainer of the parameterized notebook,
  \<open>pl.Trainer(max_steps=8000, ...).fit(solver)\<close>, belongs to an external library; the
  specification has it "run a fixed number of optimization steps".
\<close>

definition max_steps :: nat where "max_steps = 8000"

definition trainer_fit ::
  "('p \<Rightarrow> real) \<Rightarrow> ('p \<Rightarrow> 'p) \<Rightarrow> 'p train_state \<Rightarrow> 'p train_state" where
  "trainer_fit loss optimizer_step s =
     for_range 0 max_steps (train_step (\<lambda>k. False) loss optimizer_step) s"

lemma for_range_steps:
  "(\<And>k s. steps (body k s) = Suc (steps s)) \<Longrightarrow>
   steps (for_range k n body s) = steps s + (n - k)"
proof (induction k n body s rule: for_range.induct)
  case (1 k n body s)
  note body = "1.prems"
  show ?case
  proof (cases "k < n")
    case True
    have "steps (for_range (Suc k) n body (body k s)) = steps (body k s) + (n - Suc k)"
      using "1.IH"[OF True body] .
    then show ?thesis using True
      by (subst for_range.simps) (simp add: body)
  next
    case False
    then show ?thesis by (subst for_range.simps) simp
  qed
qed

lemma for_range_params:
  "(\<And>k s. params (body k s) = f (params s)) \<Longrightarrow>
   params (for_range k n body s) = (f ^^ (n - k)) (params s)"
proof (induction k n body s rule: for_range.induct)
  case (1 k n body s)
  note body = "1.prems"
  show ?case
  proof (cases "k < n")
    case True
    then have split: "n - k = Suc (n - Suc k)" by simp
    have "params (for_range (Suc k) n body (body k s)) = (f ^^ (n - Suc k)) (params (body k s))"
      using "1.IH"[OF True body] .
    then show ?thesis using True
      by (subst for_range.simps) (simp add: body split funpow_swap1)
  next
    case False
    then show ?thesis by (subst for_range.simps) simp
  qed
qed

lemma for_range_printed:
  "(\<And>k s. map fst (printed (body k s)) = map fst (printed s) @ (if shown k then [k] else [])) \<Longrightarrow>
   map fst (printed (for_range k n body s)) = map fst (printed s) @ filter shown [k..<n]"
proof (induction k n body s rule: for_range.induct)
  case (1 k n body s)
  note body = "1.prems"
  show ?case
  proof (cases "k < n")
    case True
    have "map fst (printed (for_range (Suc k) n body (body k s)))
            = map fst (printed (body k s)) @ filter shown [Suc k..<n]"
      using "1.IH"[OF True body] .
    then show ?thesis using True
      by (subst for_range.simps) (simp add: body upt_conv_Cons)
  next
    case False
    then show ?thesis by (subst for_range.simps) simp
  qed
qed

lemma printed_iterations:
  "map fst (printed (train_data_driven loss optimizer_step s))
     = map fst (printed s) @ filter (\<lambda>t. t = 0 \<or> t mod 250 = 249) [0..<5000]"
  "map fst (printed (train_physics_informed loss optimizer_step s))
     = map fst (printed s) @ filter (\<lambda>k. k mod 250 = 0 \<or> k = 4999) [0..<5000]"
  unfolding train_data_driven_def train_physics_informed_def
  by (subst for_range_printed; simp add: train_step_def train_iterations_def)+

text \<open>
  C9: every training loop ends after exactly its configured number of iterations, 5000
  in the data driven and the physics informed notebook and 8000 in the parameterized one,
  whatever the loss function and the optimizer step are: the number of steps taken does
  not depend on a value of the loss.
\<close>

theorem fixed_iteration_count:
  "steps (train_data_driven loss optimizer_step s) = steps s + 5000
   \<and> params (train_data_driven loss optimizer_step s) = (optimizer_step ^^ 5000) (params s)
   \<and> steps (train_physics_informed loss optimizer_step s) = steps s + 5000
   \<and> params (train_physics_informed loss optimizer_step s) = (optimizer_step ^^ 5000) (params s)
   \<and> steps (trainer_fit loss optimizer_step s) = steps s + 8000
   \<and> params (trainer_fit loss optimizer_step s) = (optimizer_step ^^ 8000) (params s)"
  unfolding train_data_driven_def train_physics_informed_def trainer_fit_def
  by (simp add: for_range_steps for_range_params train_step_def train_iterations_def
      max_steps_def)

section \<open>Maximum of a tensor\<close>

text \<open>
  \<open>torch.max(x)\<close> reduces all entries of \<open>x\<close> to their maximum and raises an error for a
  tensor without entries.
\<close>

definition torch_max :: "tensor1 \<Rightarrow> error + real" where
  "torch_max xs = (case xs of [] \<Rightarrow> Inl RuntimeError | x # ys \<Rightarrow> Inr (fold max ys x))"

definition flatten3 :: "tensor3 \<Rightarrow> tensor1" where
  "flatten3 T = concat (concat T)"

lemma torch_max_Max: "xs \<noteq> [] \<Longrightarrow> torch_max xs = Inr (Max (set xs))"
  by (cases xs) (simp_all add: torch_max_def Max.set_eq_fold[symmetric])

lemma set_flatten3:
  assumes "has_shape3 a b c T"
  shows "set (flatten3 T) = {T ! i ! j ! k | i j k. i < a \<and> j < b \<and> k < c}"
proof -
  have len: "length T = a" and rows: "\<And>i. i < a \<Longrightarrow> length (T ! i) = b"
    and cols: "\<And>i j. i < a \<Longrightarrow> j < b \<Longrightarrow> length (T ! i ! j) = c"
    using assms by (auto simp: has_shape3_iff)
  show ?thesis
  proof (intro set_eqI iffI)
    fix x assume "x \<in> set (flatten3 T)"
    then obtain m r where m: "m \<in> set T" and r: "r \<in> set m" and x: "x \<in> set r"
      by (auto simp: flatten3_def)
    from m obtain i where i: "i < a" "m = T ! i" using len by (auto simp: in_set_conv_nth)
    from r obtain j where j: "j < b" "r = T ! i ! j"
      using rows[OF i(1)] i(2) by (auto simp: in_set_conv_nth)
    from x obtain k where k: "k < c" "x = T ! i ! j ! k"
      using cols[OF i(1) j(1)] j(2) by (auto simp: in_set_conv_nth)
    show "x \<in> {T ! i ! j ! k | i j k. i < a \<and> j < b \<and> k < c}"
      using i j k by blast
  next
    fix x assume "x \<in> {T ! i ! j ! k | i j k. i < a \<and> j < b \<and> k < c}"
    then obtain i j k where ijk: "i < a" "j < b" "k < c" "x = T ! i ! j ! k" by blast
    have "T ! i \<in> set T" using ijk(1) len by simp
    moreover have "T ! i ! j \<in> set (T ! i)" using rows[OF ijk(1)] ijk(2) by simp
    moreover have "x \<in> set (T ! i ! j)" using cols[OF ijk(1) ijk(2)] ijk(3,4) by simp
    ultimately show "x \<in> set (flatten3 T)" by (auto simp: flatten3_def)
  qed
qed

lemma flatten3_nonempty:
  assumes "has_shape3 a b c T" "0 < a" "0 < b" "0 < c"
  shows "flatten3 T \<noteq> []"
proof -
  have "T ! 0 ! 0 ! 0 \<in> set (flatten3 T)"
    unfolding set_flatten3[OF assms(1)] using assms(2-4) by blast
  then show ?thesis by auto
qed

section \<open>The accuracy check of the data driven notebook (exercise 1.2)\<close>

text \<open>
  \<^verbatim>\<open>
  model_out = model(input_testing)
  error = torch.abs(model_out - output_testing)
  print("Relative error on the test data is:", torch.max(error) / torch.max(output_testing))
  \<close>
  The test tensors and the network are what the students build: \<open>input_testing\<close> of shape
  \<open>(N_D_test, N_t_test, 2)\<close>, \<open>output_testing\<close> of shape \<open>(N_D_test, N_t_test, 1)\<close>, and
  a network \<open>net\<close> from a row \<open>(D, t)\<close> to one number. They are parameters here. The
  subtraction is the one of two tensors of the same shape. Where the divisor is \<open>0\<close> the
  tensor library yields an infinity or a nan, which the reals do not have: the theorem
  excludes that case.
\<close>

definition apply_model :: "(real list \<Rightarrow> real) \<Rightarrow> tensor3 \<Rightarrow> tensor3" where
  "apply_model net X = map (map (\<lambda>row. [net row])) X"

definition abs_sub3 :: "tensor3 \<Rightarrow> tensor3 \<Rightarrow> tensor3" where
  "abs_sub3 A B = map2 (map2 (map2 (\<lambda>a b. \<bar>a - b\<bar>))) A B"

definition relative_error :: "(real list \<Rightarrow> real) \<Rightarrow> tensor3 \<Rightarrow> tensor3 \<Rightarrow> error + real" where
  "relative_error net input_testing output_testing =
     (let model_out = apply_model net input_testing;
          err = abs_sub3 model_out output_testing
      in case torch_max (flatten3 err) of
           Inl e \<Rightarrow> Inl e
         | Inr m \<Rightarrow>
             (case torch_max (flatten3 output_testing) of
                Inl e \<Rightarrow> Inl e
              | Inr d \<Rightarrow> Inr (m / d)))"

text \<open>
  For comparison, in the words of the specification: a relative error taken point by
  point, each absolute error divided by the magnitude of its own target.
\<close>

definition per_point_relative_error ::
  "(real list \<Rightarrow> real) \<Rightarrow> tensor3 \<Rightarrow> tensor3 \<Rightarrow> error + real" where
  "per_point_relative_error net input_testing output_testing =
     torch_max (flatten3 (map2 (map2 (map2 (\<lambda>e y. e / \<bar>y\<bar>)))
        (abs_sub3 (apply_model net input_testing) output_testing) output_testing))"

lemma abs_sub3_shape:
  assumes "has_shape3 a b c A" "has_shape3 a b c B"
  shows "has_shape3 a b c (abs_sub3 A B)"
  using assms by (auto simp: has_shape3_iff abs_sub3_def)

lemma abs_sub3_nth:
  assumes "has_shape3 a b c A" "has_shape3 a b c B" "i < a" "j < b" "k < c"
  shows "abs_sub3 A B ! i ! j ! k = \<bar>A ! i ! j ! k - B ! i ! j ! k\<bar>"
  using assms by (auto simp: has_shape3_iff abs_sub3_def)

lemma apply_model_shape:
  assumes "has_shape3 a b c X"
  shows "has_shape3 a b 1 (apply_model net X)"
  using assms by (auto simp: has_shape3_iff apply_model_def)

lemma apply_model_nth:
  assumes "has_shape3 a b c X" "i < a" "j < b"
  shows "apply_model net X ! i ! j ! 0 = net (X ! i ! j)"
  using assms by (auto simp: has_shape3_iff apply_model_def)

lemma relative_error_eq:
  assumes inp: "has_shape3 a b c input_testing"
    and out: "has_shape3 a b 1 output_testing"
    and pos: "0 < a" "0 < b"
  shows "relative_error net input_testing output_testing =
           Inr (Max {\<bar>net (input_testing ! i ! j) - output_testing ! i ! j ! 0\<bar> | i j. i < a \<and> j < b}
                / Max {output_testing ! i ! j ! 0 | i j. i < a \<and> j < b})"
proof -
  let ?err = "abs_sub3 (apply_model net input_testing) output_testing"
  have sh: "has_shape3 a b 1 ?err"
    by (rule abs_sub3_shape[OF apply_model_shape[OF inp] out])
  have ne: "flatten3 ?err \<noteq> []" "flatten3 output_testing \<noteq> []"
    using flatten3_nonempty[OF sh pos] flatten3_nonempty[OF out pos] by simp_all
  have s1: "set (flatten3 ?err)
      = {\<bar>net (input_testing ! i ! j) - output_testing ! i ! j ! 0\<bar> | i j. i < a \<and> j < b}"
    unfolding set_flatten3[OF sh]
    using abs_sub3_nth[OF apply_model_shape[OF inp] out] apply_model_nth[OF inp]
    by (auto; metis)
  have s2: "set (flatten3 output_testing) = {output_testing ! i ! j ! 0 | i j. i < a \<and> j < b}"
    unfolding set_flatten3[OF out] by auto
  show ?thesis
    unfolding relative_error_def Let_def
    by (simp add: torch_max_Max[OF ne(1)] torch_max_Max[OF ne(2)] s1 s2)
qed

lemma relative_error_example:
  "relative_error (\<lambda>row. if row ! 1 = 0 then 2 else 10) [[[0.5, 0], [0.5, 3]]] [[[1], [10]]]
     = Inr (1 / 10)"
  by (simp add: relative_error_def apply_model_def abs_sub3_def flatten3_def torch_max_def)

lemma per_point_relative_error_example:
  "per_point_relative_error (\<lambda>row. if row ! 1 = 0 then 2 else 10)
     [[[0.5, 0], [0.5, 3]]] [[[1], [10]]] = Inr 1"
  by (simp add: per_point_relative_error_def apply_model_def abs_sub3_def flatten3_def
      torch_max_def)

text \<open>
  C8: the accuracy check reports the single number
  \<open>max |model(input_testing) - output_testing| / max output_testing\<close>: the largest absolute
  error over all test points divided by the largest test target. It is not a relative
  error taken point by point: on a test set of two points with targets \<open>1\<close> and \<open>10\<close>
  and absolute errors \<open>1\<close> and \<open>0\<close> it reports \<open>1/10\<close>, the point-wise value is \<open>1\<close>.
\<close>

theorem relative_error_is_global:
  assumes "has_shape3 N_D_test N_t_test 2 input_testing"
    and "has_shape3 N_D_test N_t_test 1 output_testing"
    and "Max {output_testing ! i ! j ! 0 | i j. i < N_D_test \<and> j < N_t_test} \<noteq> 0"
  shows "relative_error net input_testing output_testing =
           Inr (Max {\<bar>net (input_testing ! i ! j) - output_testing ! i ! j ! 0\<bar>
                      | i j. i < N_D_test \<and> j < N_t_test}
                / Max {output_testing ! i ! j ! 0 | i j. i < N_D_test \<and> j < N_t_test})
       \<and> (\<exists>net' X Y. has_shape3 1 2 2 X \<and> has_shape3 1 2 1 Y
             \<and> relative_error net' X Y = Inr (1 / 10)
             \<and> per_point_relative_error net' X Y = Inr 1)"
proof
  show "relative_error net input_testing output_testing =
           Inr (Max {\<bar>net (input_testing ! i ! j) - output_testing ! i ! j ! 0\<bar>
                      | i j. i < N_D_test \<and> j < N_t_test}
                / Max {output_testing ! i ! j ! 0 | i j. i < N_D_test \<and> j < N_t_test})"
    by (rule relative_error_eq[OF assms(1,2)]) (simp_all add: N_D_test_def N_t_test_def)
  have "has_shape3 1 2 2 [[[0.5, 0], [0.5, 3::real]]]" "has_shape3 1 2 1 [[[1], [10::real]]]"
    by (simp_all add: has_shape3_def)
  then show "\<exists>net' X Y. has_shape3 1 2 2 X \<and> has_shape3 1 2 1 Y
             \<and> relative_error net' X Y = Inr (1 / 10)
             \<and> per_point_relative_error net' X Y = Inr 1"
    using relative_error_example per_point_relative_error_example by blast
qed

theorem relative_error_is_global_witness:
  "has_shape3 N_D_test N_t_test 2 (replicate 25 (replicate 50 [0.5, 0::real]))
   \<and> has_shape3 N_D_test N_t_test 1 (replicate 25 (replicate 50 [50::real]))
   \<and> Max {replicate 25 (replicate 50 [50::real]) ! i ! j ! 0 | i j. i < N_D_test \<and> j < N_t_test} \<noteq> 0
   \<and> relative_error (\<lambda>row. 49) (replicate 25 (replicate 50 [0.5, 0]))
        (replicate 25 (replicate 50 [50])) = Inr (1 / 50)"
proof -
  let ?X = "replicate 25 (replicate 50 [0.5, 0::real])"
  let ?Y = "replicate 25 (replicate 50 [50::real])"
  have x: "has_shape3 N_D_test N_t_test 2 ?X" and y: "has_shape3 N_D_test N_t_test 1 ?Y"
    by (simp_all add: has_shape3_iff N_D_test_def N_t_test_def)
  have s: "{?Y ! i ! j ! 0 | i j. i < N_D_test \<and> j < N_t_test} = {50}"
    by (auto simp: N_D_test_def N_t_test_def intro!: exI[of _ 0])
  have e: "{\<bar>49 - ?Y ! i ! j ! 0\<bar> | i j. i < N_D_test \<and> j < N_t_test} = {1}"
    by (auto simp: N_D_test_def N_t_test_def intro!: exI[of _ 0])
  have m: "Max {?Y ! i ! j ! 0 | i j. i < N_D_test \<and> j < N_t_test} \<noteq> 0"
    unfolding s by simp
  have "relative_error (\<lambda>row. 49) ?X ?Y = Inr (1 / 50)"
    using relative_error_is_global[OF x y m, of "\<lambda>row. 49"] unfolding s e by simp
  with x y m show ?thesis by blast
qed

section \<open>The error plot of the parameterized notebook\<close>

text \<open>
  \<^verbatim>\<open>
  k_tensor = torch.linspace(0, 2.0, 50)
  error_tensor = torch.zeros_like(k_tensor)
  for i in range(len(k_tensor)):
      plot_sampler = tp.samplers.PlotSampler(plot_domain=I_x, n_points=100, device='cuda',
                                             data_for_other_variables={'k': k_tensor[i]})
      inp_data = plot_sampler.sample_points()
      out = model(inp_data).as_tensor
      error_tensor[i] = torch.max(torch.abs(out - torch.exp(k_tensor[i]*inp_data[:, 'x'].as_tensor)))
  \<close>
  The sampler and the trained network belong to the external library: the \<open>x\<close> coordinates
  \<open>xs\<close> of the sampled points and the network, a function of \<open>x\<close> and \<open>k\<close>, are
  parameters of the loop.
\<close>

definition k_tensor :: tensor1 where "k_tensor = linspace 0 2.0 50"

definition zeros_like :: "tensor1 \<Rightarrow> tensor1" where
  "zeros_like xs = map (\<lambda>_. 0) xs"

fun for_each :: "nat list \<Rightarrow> (nat \<Rightarrow> 's \<Rightarrow> error + 's) \<Rightarrow> 's \<Rightarrow> error + 's" where
  "for_each [] body s = Inr s"
| "for_each (i # is) body s =
     (case body i s of Inl e \<Rightarrow> Inl e | Inr s' \<Rightarrow> for_each is body s')"

definition error_body ::
  "(real \<Rightarrow> real \<Rightarrow> real) \<Rightarrow> tensor1 \<Rightarrow> nat \<Rightarrow> tensor1 \<Rightarrow> error + tensor1" where
  "error_body fcn xs i error_tensor =
     (let k = k_tensor ! i;
          out = map (\<lambda>x. fcn x k) xs
      in case torch_max (map2 (\<lambda>y x. \<bar>y - exp (k * x)\<bar>) out xs) of
           Inl e \<Rightarrow> Inl e
         | Inr m \<Rightarrow> Inr (error_tensor[i := m]))"

definition error_tensor :: "(real \<Rightarrow> real \<Rightarrow> real) \<Rightarrow> tensor1 \<Rightarrow> error + tensor1" where
  "error_tensor fcn xs =
     for_each [0..<length k_tensor] (error_body fcn xs) (zeros_like k_tensor)"

text \<open>\<open>error_tensor[i]\<close>, read after the loop.\<close>

definition error_tensor_at ::
  "(real \<Rightarrow> real \<Rightarrow> real) \<Rightarrow> tensor1 \<Rightarrow> nat \<Rightarrow> error + real" where
  "error_tensor_at fcn xs i =
     (case error_tensor fcn xs of
        Inl e \<Rightarrow> Inl e
      | Inr E \<Rightarrow> (if i < length E then Inr (E ! i) else Inl IndexError))"

text \<open>
  The plot sampler of the library on the interval \<open>I_x = [0, 1]\<close>: with \<open>n_points = n\<close>
  it returns the two end points of the interval and \<open>n\<close> equidistant points strictly
  inside, \<open>n + 2\<close> points in all. The order of the points has no influence on a maximum.
\<close>

definition interior_points :: "nat \<Rightarrow> tensor1" where
  "interior_points n = map (\<lambda>i. real (Suc i) / real (n + 1)) [0..<n]"

definition plot_sampler_points :: "nat \<Rightarrow> tensor1" where
  "plot_sampler_points n = [0] @ interior_points n @ [1]"

text \<open>
  In the words of the claim: the maximum over the points \<open>xs\<close> of the absolute difference
  between the network at \<open>(x, k)\<close> and the reference \<open>e^(k x)\<close>.
\<close>

definition max_abs_error :: "(real \<Rightarrow> real \<Rightarrow> real) \<Rightarrow> real \<Rightarrow> tensor1 \<Rightarrow> real" where
  "max_abs_error fcn k xs = Max ((\<lambda>x. \<bar>fcn x k - exp (k * x)\<bar>) ` set xs)"

lemma error_body_eq:
  assumes "xs \<noteq> []"
  shows "error_body fcn xs i E =
           Inr (E[i := Max ((\<lambda>x. \<bar>fcn x (k_tensor ! i) - exp (k_tensor ! i * x)\<bar>) ` set xs)])"
proof -
  have m: "map2 (\<lambda>y x. \<bar>y - exp (k * x)\<bar>) (map (\<lambda>x. fcn x k) xs) xs
         = map (\<lambda>x. \<bar>fcn x k - exp (k * x)\<bar>) xs" for k
    by (induction xs) simp_all
  show ?thesis
    unfolding error_body_def Let_def m
    using assms by (simp add: torch_max_Max)
qed

lemma for_each_update:
  assumes "\<And>i s. body i s = Inr (s[i := f i])"
  shows "distinct js \<Longrightarrow> \<forall>j \<in> set js. j < length s \<Longrightarrow>
         \<exists>s'. for_each js body s = Inr s' \<and> length s' = length s \<and>
              (\<forall>i < length s. s' ! i = (if i \<in> set js then f i else s ! i))"
proof (induction js arbitrary: s)
  case Nil
  then show ?case by simp
next
  case (Cons j js)
  have d: "distinct js" and nj: "j \<notin> set js" using Cons.prems(1) by simp_all
  have b: "\<forall>i \<in> set js. i < length (s[j := f j])" using Cons.prems(2) by simp
  from Cons.IH[OF d b] obtain s' where s':
    "for_each js body (s[j := f j]) = Inr s'" "length s' = length s"
    "\<forall>i < length s. s' ! i = (if i \<in> set js then f i else s[j := f j] ! i)"
    by auto
  have "for_each (j # js) body s = Inr s'" using s'(1) by (simp add: assms)
  moreover have "\<forall>i < length s. s' ! i = (if i \<in> set (j # js) then f i else s ! i)"
    using s'(3) nj by (auto simp: nth_list_update)
  ultimately show ?case using s'(2) by blast
qed

lemma k_tensor_nth: "i < 50 \<Longrightarrow> k_tensor ! i = 2 * real i / 49"
  by (simp add: k_tensor_def nth_linspace)

lemma error_tensor_eq:
  assumes "xs \<noteq> []"
  shows "\<exists>E. error_tensor fcn xs = Inr E \<and> length E = 50 \<and>
           (\<forall>i < 50. E ! i = Max ((\<lambda>x. \<bar>fcn x (k_tensor ! i) - exp (k_tensor ! i * x)\<bar>) ` set xs))"
proof -
  have len: "length k_tensor = 50" by (simp add: k_tensor_def length_linspace)
  have "\<exists>s'. for_each [0..<length k_tensor] (error_body fcn xs) (zeros_like k_tensor) = Inr s'
          \<and> length s' = length (zeros_like k_tensor)
          \<and> (\<forall>i < length (zeros_like k_tensor). s' ! i =
               (if i \<in> set [0..<length k_tensor]
                then Max ((\<lambda>x. \<bar>fcn x (k_tensor ! i) - exp (k_tensor ! i * x)\<bar>) ` set xs)
                else zeros_like k_tensor ! i))"
    by (rule for_each_update) (simp_all add: error_body_eq[OF assms] zeros_like_def)
  then show ?thesis
    unfolding error_tensor_def by (auto simp: len zeros_like_def)
qed

lemma length_interior_points: "length (interior_points n) = n"
  by (simp add: interior_points_def)

lemma length_plot_sampler_points: "length (plot_sampler_points n) = n + 2"
  by (simp add: plot_sampler_points_def length_interior_points)

lemma interior_points_range:
  assumes "x \<in> set (interior_points n)"
  shows "0 < x \<and> x \<le> real n / real (n + 1)"
proof -
  from assms obtain i where i: "i < n" "x = real (Suc i) / real (n + 1)"
    by (auto simp: interior_points_def)
  have "real (Suc i) \<le> real n" using i(1) by simp
  then have "real (Suc i) / real (n + 1) \<le> real n / real (n + 1)"
    by (simp add: divide_right_mono)
  then show ?thesis using i by simp
qed

lemma last_interior_point:
  "0 < n \<Longrightarrow> real n / real (n + 1) \<in> set (interior_points n)"
  unfolding interior_points_def
  by (auto simp: image_iff intro!: bexI[of _ "n - 1"])

lemma max_abs_error_zero_network:
  assumes k: "0 \<le> k" and top: "b \<in> set xs" and le: "\<And>x. x \<in> set xs \<Longrightarrow> x \<le> b"
  shows "max_abs_error (\<lambda>x k. 0) k xs = exp (k * b)"
  unfolding max_abs_error_def
proof (rule Max_eqI)
  show "finite ((\<lambda>x. \<bar>0 - exp (k * x)\<bar>) ` set xs)" by simp
  show "exp (k * b) \<in> (\<lambda>x. \<bar>0 - exp (k * x)\<bar>) ` set xs"
    using top by (auto simp: image_iff intro!: bexI[of _ b])
  fix y assume "y \<in> (\<lambda>x. \<bar>0 - exp (k * x)\<bar>) ` set xs"
  then obtain x where x: "x \<in> set xs" "y = exp (k * x)" by auto
  have "k * x \<le> k * b" using le[OF x(1)] k by (simp add: mult_left_mono)
  then show "y \<le> exp (k * b)" using x(2) by simp
qed

lemma max_over_interior:
  "max_abs_error (\<lambda>x k. 0) 2 (interior_points 100) = exp (200 / 101)"
proof -
  have "max_abs_error (\<lambda>x k. 0) 2 (interior_points 100) = exp (2 * (real 100 / real (100 + 1)))"
    by (rule max_abs_error_zero_network)
       (use last_interior_point[of 100] interior_points_range[of _ 100] in auto)
  then show ?thesis by simp
qed

lemma max_over_sample:
  "max_abs_error (\<lambda>x k. 0) 2 (plot_sampler_points 100) = exp 2"
proof -
  have "max_abs_error (\<lambda>x k. 0) 2 (plot_sampler_points 100) = exp (2 * 1)"
  proof (rule max_abs_error_zero_network)
    show "(0::real) \<le> 2" by simp
    show "1 \<in> set (plot_sampler_points 100)" by (simp add: plot_sampler_points_def)
    fix x assume "x \<in> set (plot_sampler_points 100)"
    then consider "x = 0" | "x \<in> set (interior_points 100)" | "x = 1"
      by (auto simp: plot_sampler_points_def)
    then show "x \<le> 1"
    proof cases
      case 2
      then show ?thesis using interior_points_range[of x 100] by simp
    qed simp_all
  qed
  then show ?thesis by simp
qed

lemma error_tensor_at_eq:
  assumes "xs \<noteq> []" "i < 50"
  shows "error_tensor_at fcn xs i = Inr (max_abs_error fcn (k_tensor ! i) xs)"
  using error_tensor_eq[OF assms(1), of fcn] assms(2)
  by (auto simp: error_tensor_at_def max_abs_error_def)

lemma k_tensor_last: "k_tensor ! 49 = 2"
  by (simp add: k_tensor_nth)

text \<open>
  C5, as stated: \<open>error_tensor[i]\<close> is the maximum over the 100 plot points. The sampler
  returns 102 points, and the maximum is taken over all of them: for the network that is
  constantly \<open>0\<close> and \<open>k = 2\<close> the loop stores \<open>e^2\<close>, the error at the end point
  \<open>x = 1\<close>, while the maximum over the 100 interior points is \<open>e^(200/101)\<close>.
\<close>

theorem error_tensor_is_not_max_over_100_points:
  "length (interior_points 100) = 100
   \<and> length (plot_sampler_points 100) = 102
   \<and> error_tensor_at (\<lambda>x k. 0) (plot_sampler_points 100) 49 = Inr (exp 2)
   \<and> max_abs_error (\<lambda>x k. 0) (k_tensor ! 49) (interior_points 100) = exp (200 / 101)
   \<and> exp (200 / 101) < exp (2::real)"
proof -
  have ne: "plot_sampler_points 100 \<noteq> []" by (simp add: plot_sampler_points_def)
  have "error_tensor_at (\<lambda>x k. 0) (plot_sampler_points 100) 49 = Inr (exp 2)"
    using error_tensor_at_eq[OF ne, of 49 "\<lambda>x k. 0"]
    by (simp add: k_tensor_last max_over_sample)
  then show ?thesis
    by (simp add: length_interior_points length_plot_sampler_points k_tensor_last
        max_over_interior)
qed

text \<open>
  C5, amended: for each of the 50 equidistant parameter values \<open>k_i = 2 i / 49\<close> in
  \<open>[0, 2]\<close>, which come from \<open>linspace\<close> and from no training sample, \<open>error_tensor[i]\<close>
  is the maximum over all the points \<open>x\<close> the plot sampler returns of
  \<open>|model(x, k_i) - e^(k_i x)|\<close>; for \<open>n_points = 100\<close> these are 102 points, the two
  end points of \<open>[0, 1]\<close> and 100 points inside.
\<close>

theorem error_tensor_is_max_error:
  assumes "xs \<noteq> []"
  shows "(\<exists>E. error_tensor fcn xs = Inr E \<and> length E = 50 \<and>
           (\<forall>i < 50. k_tensor ! i = 2 * real i / 49 \<and> 0 \<le> k_tensor ! i \<and> k_tensor ! i \<le> 2 \<and>
              E ! i = Max {\<bar>fcn x (k_tensor ! i) - exp (k_tensor ! i * x)\<bar> | x. x \<in> set xs}))
       \<and> length (plot_sampler_points 100) = 102
       \<and> set (plot_sampler_points 100) = {0, 1} \<union> set (interior_points 100)"
proof -
  have img: "{\<bar>fcn x k - exp (k * x)\<bar> | x. x \<in> set xs}
           = (\<lambda>x. \<bar>fcn x k - exp (k * x)\<bar>) ` set xs" for k
    by auto
  have rng: "0 \<le> k_tensor ! i \<and> k_tensor ! i \<le> 2" if "i < 50" for i
    using that by (simp add: k_tensor_nth)
  have "\<exists>E. error_tensor fcn xs = Inr E \<and> length E = 50 \<and>
           (\<forall>i < 50. k_tensor ! i = 2 * real i / 49 \<and> 0 \<le> k_tensor ! i \<and> k_tensor ! i \<le> 2 \<and>
              E ! i = Max {\<bar>fcn x (k_tensor ! i) - exp (k_tensor ! i * x)\<bar> | x. x \<in> set xs})"
    using error_tensor_eq[OF assms, of fcn] rng k_tensor_nth unfolding img by blast
  moreover have "set (plot_sampler_points 100) = {0, 1} \<union> set (interior_points 100)"
    by (auto simp: plot_sampler_points_def)
  ultimately show ?thesis
    by (simp add: length_plot_sampler_points)
qed

theorem error_tensor_is_max_error_witness:
  "plot_sampler_points 100 \<noteq> []
   \<and> (\<exists>E. error_tensor (\<lambda>x k. 0) (plot_sampler_points 100) = Inr E \<and> length E = 50
          \<and> E ! 0 = 1 \<and> E ! 49 = exp 2)"
proof -
  have ne: "plot_sampler_points 100 \<noteq> []" by (simp add: plot_sampler_points_def)
  from error_tensor_is_max_error[OF ne, of "\<lambda>x k. 0"]
  obtain E where E: "error_tensor (\<lambda>x k. 0) (plot_sampler_points 100) = Inr E" "length E = 50"
    "\<forall>i < 50. E ! i
       = Max {\<bar>0 - exp (k_tensor ! i * x)\<bar> | x. x \<in> set (plot_sampler_points 100)}"
    by blast
  have img: "{\<bar>0 - exp (k * x)\<bar> | x. x \<in> set (plot_sampler_points 100)}
           = (\<lambda>x. \<bar>0 - exp (k * x)\<bar>) ` set (plot_sampler_points 100)" for k :: real
    by auto
  have e49: "E ! 49 = exp 2"
    using E(3)[rule_format, of 49] max_over_sample
    unfolding img max_abs_error_def by (simp add: k_tensor_last)
  have k0: "k_tensor ! 0 = 0" by (simp add: k_tensor_nth)
  have "{\<bar>0 - exp (k_tensor ! 0 * x)\<bar> | x. x \<in> set (plot_sampler_points 100)} = {1}"
    unfolding k0 by (auto simp: plot_sampler_points_def)
  then have e0: "E ! 0 = 1"
    using E(3)[rule_format, of 0] by simp
  from ne E(1,2) e0 e49 show ?thesis by blast
qed

section \<open>Automatic differentiation\<close>

text \<open>
  The tensor library records how a tensor was computed as a graph over the leaf tensors
  that require a gradient, and \<open>torch.autograd.grad(out, t, create_graph=True)\<close> returns,
  for every entry of the leaf tensor \<open>t\<close>, the derivative of \<open>out\<close> by that entry, again as
  a graph. The library is external: this is a model of the operations the notebooks use
  (sum, product, integer power, tanh), justified by \<open>grad_sound\<close> below. \<open>Leaf i\<close> is
  entry \<open>i\<close> of the leaf tensor.
\<close>

datatype node =
    Leaf nat
  | Const real
  | AddN node node
  | MulN node node
  | PowN node nat
  | TanhN node

fun value_of :: "(nat \<Rightarrow> real) \<Rightarrow> node \<Rightarrow> real" where
  "value_of env (Leaf i) = env i"
| "value_of env (Const c) = c"
| "value_of env (AddN a b) = value_of env a + value_of env b"
| "value_of env (MulN a b) = value_of env a * value_of env b"
| "value_of env (PowN a n) = value_of env a ^ n"
| "value_of env (TanhN a) = tanh (value_of env a)"

fun grad :: "nat \<Rightarrow> node \<Rightarrow> node" where
  "grad i (Leaf j) = Const (if i = j then 1 else 0)"
| "grad i (Const c) = Const 0"
| "grad i (AddN a b) = AddN (grad i a) (grad i b)"
| "grad i (MulN a b) = AddN (MulN (grad i a) b) (MulN a (grad i b))"
| "grad i (PowN a n) = MulN (MulN (Const (real n)) (PowN a (n - 1))) (grad i a)"
| "grad i (TanhN a) =
     MulN (AddN (Const 1) (MulN (Const (- 1)) (PowN (TanhN a) 2))) (grad i a)"

definition autograd_grad :: "node \<Rightarrow> nat \<Rightarrow> node list" where
  "autograd_grad out n = map (\<lambda>i. grad i out) [0..<n]"

definition tensor_env :: "tensor1 \<Rightarrow> nat \<Rightarrow> real" where
  "tensor_env ts i = (if i < length ts then ts ! i else 0)"

text \<open>
  The example cell of exercise 1.3:
  \<^verbatim>\<open>
  t = torch.linspace(0, 10, 11, requires_grad=True)
  u = t**2
  u_sum = sum(u)
  u_t = torch.autograd.grad(u_sum, t, create_graph=True)
  \<close>
  The later cells bind \<open>t\<close> and \<open>u_t\<close> again; here the tensors of this cell are
  \<open>t_demo\<close>, \<open>u_demo\<close> and \<open>u_t_demo\<close>. Python's \<open>sum\<close> adds the entries to \<open>0\<close> from
  the left.
\<close>

definition t_demo :: tensor1 where "t_demo = linspace 0 10 11"

definition u_demo :: "node list" where
  "u_demo = map (\<lambda>i. PowN (Leaf i) 2) [0..<length t_demo]"

definition u_sum :: node where "u_sum = foldl AddN (Const 0) u_demo"

definition u_t_demo :: "node list" where
  "u_t_demo = autograd_grad u_sum (length t_demo)"

lemma grad_sound:
  "((\<lambda>x. value_of (env(i := x)) e) has_field_derivative value_of (env(i := x0)) (grad i e))
     (at x0)"
proof (induction e)
  case (Leaf j)
  then show ?case by (cases "i = j") simp_all
next
  case (Const c)
  then show ?case by simp
next
  case (AddN a b)
  then show ?case by (auto intro!: derivative_eq_intros)
next
  case (MulN a b)
  then show ?case by (auto intro!: derivative_eq_intros)
next
  case (PowN a n)
  then show ?case by (auto intro!: derivative_eq_intros)
next
  case (TanhN a)
  then show ?case by (auto intro!: derivative_eq_intros simp: algebra_simps)
qed

lemma value_of_sum_squares:
  "value_of env (foldl AddN acc (map (\<lambda>j. PowN (Leaf j) 2) js))
     = value_of env acc + (\<Sum>j\<leftarrow>js. (env j)\<^sup>2)"
  by (induction js arbitrary: acc) auto

lemma grad_sum_squares:
  "value_of env (grad i (foldl AddN acc (map (\<lambda>j. PowN (Leaf j) 2) js)))
     = value_of env (grad i acc) + (\<Sum>j\<leftarrow>js. if j = i then 2 * env i else 0)"
  by (induction js arbitrary: acc) auto

lemma sum_list_delta:
  "i < n \<Longrightarrow> (\<Sum>j\<leftarrow>[0..<n]. if j = i then c else (0::real)) = c"
  by (simp add: interv_sum_list_conv_sum_set_nat)

lemma t_demo_eq: "t_demo = [0, 1, 2, 3, 4, 5, 6, 7, 8, 9, 10]"
  by (simp add: t_demo_def linspace_def upt_rec[of _ "numeral _"])

lemma length_t_demo: "length t_demo = 11"
  by (simp add: t_demo_def linspace_def)

lemma length_u_t_demo: "length u_t_demo = 11"
  by (simp add: u_t_demo_def autograd_grad_def length_t_demo)

lemma u_t_demo_nth:
  assumes "i < 11"
  shows "value_of env (u_t_demo ! i) = 2 * env i"
  using assms
  by (simp add: u_t_demo_def autograd_grad_def u_sum_def u_demo_def length_t_demo
      grad_sum_squares sum_list_delta)

lemma u_t_demo_values:
  "map (value_of (tensor_env t_demo)) u_t_demo = map (\<lambda>x. 2 * x) t_demo"
proof (rule nth_equalityI)
  show "length (map (value_of (tensor_env t_demo)) u_t_demo) = length (map (\<lambda>x. 2 * x) t_demo)"
    by (simp add: length_u_t_demo length_t_demo)
next
  fix i assume "i < length (map (value_of (tensor_env t_demo)) u_t_demo)"
  then have i: "i < 11" by (simp add: length_u_t_demo)
  then show "map (value_of (tensor_env t_demo)) u_t_demo ! i = map (\<lambda>x. 2 * x) t_demo ! i"
    by (simp add: length_u_t_demo length_t_demo u_t_demo_nth tensor_env_def)
qed

text \<open>
  The graph \<open>u_sum\<close> denotes the sum of the squares of the entries, and entry \<open>i\<close> of the
  result of \<open>autograd_grad\<close> is its partial derivative by entry \<open>i\<close>.
\<close>

lemma u_sum_value: "value_of env u_sum = (\<Sum>j\<leftarrow>[0..<11]. (env j)\<^sup>2)"
  by (simp add: u_sum_def u_demo_def length_t_demo value_of_sum_squares)

lemma u_t_demo_is_partial_derivative:
  assumes "i < 11"
  shows "((\<lambda>x. value_of (env(i := x)) u_sum) has_field_derivative
           value_of (env(i := x0)) (u_t_demo ! i)) (at x0)"
  using grad_sound[of env i u_sum x0] assms
  by (simp add: u_t_demo_def autograd_grad_def length_t_demo)

text \<open>
  C7: for \<open>u = t^2\<close> on the grid \<open>t = 0, 1, ..., 10\<close> the derivative returned by
  \<open>torch.autograd.grad(sum(u), t)\<close> is the vector \<open>(0, 2, 4, ..., 20)\<close>, which is \<open>2 t\<close>
  entry by entry, within the tolerance \<open>1e-5\<close>.
\<close>

theorem autograd_square_derivative:
  "map (value_of (tensor_env t_demo)) u_t_demo = [0, 2, 4, 6, 8, 10, 12, 14, 16, 18, 20]
   \<and> map (value_of (tensor_env t_demo)) u_t_demo = map (\<lambda>x. 2 * x) t_demo
   \<and> (\<forall>i<11. \<bar>value_of (tensor_env t_demo) (u_t_demo ! i) - 2 * t_demo ! i\<bar> \<le> 1 / 10 ^ 5)"
proof (intro conjI allI impI)
  show "map (value_of (tensor_env t_demo)) u_t_demo = [0, 2, 4, 6, 8, 10, 12, 14, 16, 18, 20]"
    unfolding u_t_demo_values by (simp add: t_demo_eq)
  show "map (value_of (tensor_env t_demo)) u_t_demo = map (\<lambda>x. 2 * x) t_demo"
    by (rule u_t_demo_values)
next
  fix i :: nat assume "i < 11"
  then show "\<bar>value_of (tensor_env t_demo) (u_t_demo ! i) - 2 * t_demo ! i\<bar> \<le> 1 / 10 ^ 5"
    by (simp add: u_t_demo_nth tensor_env_def length_t_demo)
qed

theorem autograd_square_derivative_witness:
  "(3::nat) < 11 \<and> value_of (tensor_env t_demo) (u_t_demo ! 3) = 6
   \<and> \<bar>value_of (tensor_env t_demo) (u_t_demo ! 3) - 2 * t_demo ! 3\<bar> \<le> 1 / 10 ^ 5"
proof -
  have "\<bar>value_of (tensor_env t_demo) (u_t_demo ! 3) - 2 * t_demo ! 3\<bar> \<le> 1 / 10 ^ 5"
    using autograd_square_derivative by simp
  moreover have "map (value_of (tensor_env t_demo)) u_t_demo ! 3 = 6"
    using autograd_square_derivative by simp
  ultimately show ?thesis by (simp add: length_u_t_demo)
qed

section \<open>The feed-forward network of exercise 1.3\<close>

text \<open>
  \<^verbatim>\<open>
  model = torch.nn.Sequential(
      torch.nn.Linear(1, 20), torch.nn.Tanh(),
      torch.nn.Linear(20, 20), torch.nn.Tanh(),
      torch.nn.Linear(20, 1)
  )
  \<close>
  \<open>Linear(n, m)\<close> owns a weight matrix of shape \<open>(m, n)\<close> and a bias of length \<open>m\<close>,
  drawn at random when the layer is built and changed by the optimizer only; it maps a
  row \<open>x\<close> of length \<open>n\<close> to \<open>W x + b\<close> and raises a shape error for a row of another
  length. The network is applied to each row of a batch on its own; a row is a list of
  graph nodes, so that the result can be differentiated.
\<close>

datatype module =
    Linear (in_features: nat) (out_features: nat) (weight: "real list list") (bias: "real list")
  | Tanh

fun dot :: "real list \<Rightarrow> node list \<Rightarrow> node" where
  "dot (w # ws) (x # xs) = AddN (MulN (Const w) x) (dot ws xs)"
| "dot ws xs = Const 0"

fun apply_module :: "module \<Rightarrow> node list \<Rightarrow> error + node list" where
  "apply_module (Linear n m W b) xs =
     (if length xs \<noteq> n then Inl RuntimeError
      else Inr (map2 (\<lambda>row c. AddN (dot row xs) (Const c)) W b))"
| "apply_module Tanh xs = Inr (map TanhN xs)"

fun sequential :: "module list \<Rightarrow> node list \<Rightarrow> error + node list" where
  "sequential [] xs = Inr xs"
| "sequential (m # ms) xs =
     (case apply_module m xs of Inl e \<Rightarrow> Inl e | Inr ys \<Rightarrow> sequential ms ys)"

text \<open>The parameters of the three linear layers, and the network built on them.\<close>

record parameters =
  weight1 :: "real list list"
  bias1 :: "real list"
  weight2 :: "real list list"
  bias2 :: "real list"
  weight3 :: "real list list"
  bias3 :: "real list"

definition model :: "parameters \<Rightarrow> module list" where
  "model p =
     [Linear 1 20 (weight1 p) (bias1 p), Tanh,
      Linear 20 20 (weight2 p) (bias2 p), Tanh,
      Linear 20 1 (weight3 p) (bias3 p)]"

definition has_shape2 :: "nat \<Rightarrow> nat \<Rightarrow> 'a list list \<Rightarrow> bool" where
  "has_shape2 r c M \<longleftrightarrow> length M = r \<and> list_all (\<lambda>row. length row = c) M"

fun module_ok :: "module \<Rightarrow> bool" where
  "module_ok (Linear n m W b) \<longleftrightarrow> has_shape2 m n W \<and> length b = m"
| "module_ok Tanh \<longleftrightarrow> True"

definition zero_parameters :: parameters where
  "zero_parameters =
     \<lparr>weight1 = replicate 20 (replicate 1 0), bias1 = replicate 20 0,
      weight2 = replicate 20 (replicate 20 0), bias2 = replicate 20 0,
      weight3 = replicate 1 (replicate 20 0), bias3 = replicate 1 0\<rparr>"

fun n_parameters :: "module list \<Rightarrow> nat" where
  "n_parameters [] = 0"
| "n_parameters (Linear n m W b # ms) = n * m + m + n_parameters ms"
| "n_parameters (Tanh # ms) = n_parameters ms"

text \<open>
  Modelled from the spec: the network of the data driven notebook is left to the students
  (\<open>model = ...\<close>); the exercise asks for "2 input neurons for the values of t, D and 1
  output neuron for u, two hidden layers of size 20 and Tanh-activation in between".
\<close>

definition model_data_driven :: "parameters \<Rightarrow> module list" where
  "model_data_driven p =
     [Linear 2 20 (weight1 p) (bias1 p), Tanh,
      Linear 20 20 (weight2 p) (bias2 p), Tanh,
      Linear 20 1 (weight3 p) (bias3 p)]"

lemma has_shape2_iff:
  "has_shape2 r c M \<longleftrightarrow> length M = r \<and> (\<forall>i<r. length (M ! i) = c)"
  by (auto simp: has_shape2_def list_all_length)

lemma value_of_dot:
  "length ws = length xs \<Longrightarrow>
   value_of env (dot ws xs) = (\<Sum>i<length xs. ws ! i * value_of env (xs ! i))"
proof (induction ws xs rule: list_induct2)
  case Nil
  then show ?case by simp
next
  case (Cons w ws x xs)
  then show ?case by (simp add: sum.lessThan_Suc_shift del: sum.lessThan_Suc)
qed

lemma linear_nth:
  assumes "has_shape2 m n W" "length b = m" "length xs = n" "j < m"
  shows "value_of env (map2 (\<lambda>row c. AddN (dot row xs) (Const c)) W b ! j)
           = (\<Sum>i<n. W ! j ! i * value_of env (xs ! i)) + b ! j"
  using assms by (simp add: has_shape2_iff value_of_dot)

lemma two_hidden_layers_forward:
  assumes s1: "has_shape2 20 n W1" "length b1 = 20"
    and s2: "has_shape2 20 20 W2" "length b2 = 20"
    and s3: "has_shape2 1 20 W3" "length b3 = 1"
    and xs: "length xs = n"
  shows "\<exists>y. sequential [Linear n 20 W1 b1, Tanh, Linear 20 20 W2 b2, Tanh, Linear 20 1 W3 b3] xs
               = Inr [y] \<and>
           (\<forall>env. value_of env y =
              (\<Sum>j<20. W3 ! 0 ! j *
                 tanh ((\<Sum>i<20. W2 ! j ! i *
                          tanh ((\<Sum>k<n. W1 ! i ! k * value_of env (xs ! k)) + b1 ! i))
                       + b2 ! j))
              + b3 ! 0)"
proof -
  define z1 where "z1 = map2 (\<lambda>row c. AddN (dot row xs) (Const c)) W1 b1"
  define h1 where "h1 = map TanhN z1"
  define z2 where "z2 = map2 (\<lambda>row c. AddN (dot row h1) (Const c)) W2 b2"
  define h2 where "h2 = map TanhN z2"
  define out where "out = map2 (\<lambda>row c. AddN (dot row h2) (Const c)) W3 b3"
  have l1: "length h1 = 20" using s1 by (simp add: h1_def z1_def has_shape2_iff)
  have l2: "length h2 = 20" using s2 by (simp add: h2_def z2_def has_shape2_iff)
  have l3: "length out = 1" using s3 by (simp add: out_def has_shape2_iff)
  have a1: "apply_module (Linear n 20 W1 b1) xs = Inr z1"
    using xs by (simp add: z1_def)
  have a2: "apply_module Tanh z1 = Inr h1" by (simp add: h1_def)
  have a3: "apply_module (Linear 20 20 W2 b2) h1 = Inr z2"
    using l1 by (simp add: z2_def)
  have a4: "apply_module Tanh z2 = Inr h2" by (simp add: h2_def)
  have a5: "apply_module (Linear 20 1 W3 b3) h2 = Inr out"
    using l2 by (simp add: out_def)
  have seq: "sequential [Linear n 20 W1 b1, Tanh, Linear 20 20 W2 b2, Tanh, Linear 20 1 W3 b3] xs
               = Inr out"
    by (simp only: sequential.simps a1 a2 a3 a4 a5 sum.case)
  have v1: "value_of env (h1 ! i) = tanh ((\<Sum>k<n. W1 ! i ! k * value_of env (xs ! k)) + b1 ! i)"
    if "i < 20" for i env
  proof -
    have "i < length z1"
      using that s1 by (simp add: z1_def has_shape2_iff)
    then show ?thesis
      unfolding h1_def z1_def using linear_nth[OF s1 xs, of i env] that by simp
  qed
  have v2: "value_of env (h2 ! j) =
      tanh ((\<Sum>i<20. W2 ! j ! i * tanh ((\<Sum>k<n. W1 ! i ! k * value_of env (xs ! k)) + b1 ! i))
            + b2 ! j)"
    if "j < 20" for j env
  proof -
    have "j < length z2"
      using that s2 by (simp add: z2_def has_shape2_iff)
    then show ?thesis
      unfolding h2_def z2_def using linear_nth[OF s2 l1, of j env] that by (simp add: v1)
  qed
  have v3: "value_of env (out ! 0) =
      (\<Sum>j<20. W3 ! 0 ! j *
         tanh ((\<Sum>i<20. W2 ! j ! i * tanh ((\<Sum>k<n. W1 ! i ! k * value_of env (xs ! k)) + b1 ! i))
               + b2 ! j))
      + b3 ! 0" for env
    unfolding out_def using linear_nth[OF s3 l2, of 0 env] by (simp add: v2)
  from l3 obtain y where y: "out = [y]"
    by (cases out) simp_all
  then have "out ! 0 = y" by simp
  with seq y v3 show ?thesis by auto
qed

lemma model_forward:
  assumes ok: "list_all module_ok (model p)"
  shows "\<exists>y. sequential (model p) [x] = Inr [y] \<and>
           (\<forall>env. value_of env y =
              (\<Sum>j<20. weight3 p ! 0 ! j *
                 tanh ((\<Sum>i<20. weight2 p ! j ! i *
                          tanh (weight1 p ! i ! 0 * value_of env x + bias1 p ! i))
                       + bias2 p ! j))
              + bias3 p ! 0)"
proof -
  have s: "has_shape2 20 1 (weight1 p)" "length (bias1 p) = 20"
    "has_shape2 20 20 (weight2 p)" "length (bias2 p) = 20"
    "has_shape2 1 20 (weight3 p)" "length (bias3 p) = 1"
    using ok by (simp_all add: model_def)
  have x: "length [x] = 1" by simp
  show ?thesis
    using two_hidden_layers_forward[OF s x] unfolding model_def by simp
qed

lemma model_rejects:
  assumes "length xs \<noteq> 1"
  shows "sequential (model p) xs = Inl RuntimeError"
  using assms by (simp add: model_def)

lemma zero_parameters_ok: "list_all module_ok (model zero_parameters)"
  by (simp add: model_def zero_parameters_def has_shape2_iff)

lemma model_data_driven_forward:
  assumes ok: "list_all module_ok (model_data_driven p)"
  shows "\<exists>y. sequential (model_data_driven p) [d, x] = Inr [y] \<and>
           (\<forall>env. value_of env y =
              (\<Sum>j<20. weight3 p ! 0 ! j *
                 tanh ((\<Sum>i<20. weight2 p ! j ! i *
                          tanh (weight1 p ! i ! 0 * value_of env d
                                + weight1 p ! i ! 1 * value_of env x + bias1 p ! i))
                       + bias2 p ! j))
              + bias3 p ! 0)"
proof -
  have s: "has_shape2 20 2 (weight1 p)" "length (bias1 p) = 20"
    "has_shape2 20 20 (weight2 p)" "length (bias2 p) = 20"
    "has_shape2 1 20 (weight3 p)" "length (bias3 p) = 1"
    using ok by (simp_all add: model_data_driven_def)
  have x: "length [d, x] = 2" by simp
  have k2: "(\<Sum>k<2. f k) = f 0 + f 1" for f :: "nat \<Rightarrow> real"
    by (simp add: lessThan_Suc numeral_2_eq_2)
  from two_hidden_layers_forward[OF s x] obtain y where
    "sequential (model_data_driven p) [d, x] = Inr [y]"
    "\<forall>env. value_of env y =
              (\<Sum>j<20. weight3 p ! 0 ! j *
                 tanh ((\<Sum>i<20. weight2 p ! j ! i *
                          tanh ((\<Sum>k<2. weight1 p ! i ! k * value_of env ([d, x] ! k))
                                + bias1 p ! i))
                       + bias2 p ! j))
              + bias3 p ! 0"
    unfolding model_data_driven_def by blast
  then show ?thesis
    unfolding k2 by auto
qed

lemma parameter_counts:
  "n_parameters (model p) = 481"
  "n_parameters (model_data_driven p) = 501"
  "n_parameters [Linear 2 20 W1 b1, Tanh, Linear 20 20 W2 b2, Tanh,
                 Linear 20 20 W3 b3, Tanh, Linear 20 1 W4 b4] = 921"
  by (simp_all add: model_def model_data_driven_def)

text \<open>
  C4, as stated: every regressor of the notebooks maps a 2-dimensional input
  (time, parameter) to a 1-dimensional output. The network that exercise 1.3 builds has one
  input feature: applied to a row of two entries it raises a shape error.
\<close>

theorem model_rejects_two_inputs:
  "list_all module_ok (model zero_parameters)
   \<and> sequential (model zero_parameters) [Leaf 0, Leaf 1] = Inl RuntimeError"
  by (simp add: zero_parameters_ok model_rejects)

text \<open>
  C4, amended: the regressor of the physics informed notebook maps a 1-dimensional input
  (the time; the parameter \<open>D\<close> is fixed there) to a 1-dimensional output through exactly
  two hidden layers of width 20, each followed by Tanh, and no nonlinearity on the output
  layer: its output is
  \<open>b3 + \<Sum>j<20. W3[0][j] tanh (b2[j] + \<Sum>i<20. W2[j][i] tanh (W1[i][0] x + b1[i]))\<close>.
\<close>

theorem model_is_one_input_two_hidden_layers:
  assumes "list_all module_ok (model p)"
  shows "(\<exists>y. sequential (model p) [x] = Inr [y] \<and>
           (\<forall>env. value_of env y =
              (\<Sum>j<20. weight3 p ! 0 ! j *
                 tanh ((\<Sum>i<20. weight2 p ! j ! i *
                          tanh (weight1 p ! i ! 0 * value_of env x + bias1 p ! i))
                       + bias2 p ! j))
              + bias3 p ! 0))
       \<and> (\<forall>xs. length xs \<noteq> 1 \<longrightarrow> sequential (model p) xs = Inl RuntimeError)
       \<and> map in_features [model p ! 0, model p ! 2, model p ! 4] = [1, 20, 20]
       \<and> map out_features [model p ! 0, model p ! 2, model p ! 4] = [20, 20, 1]
       \<and> model p ! 1 = Tanh \<and> model p ! 3 = Tanh \<and> length (model p) = 5"
  using model_forward[OF assms, of x] model_rejects[of _ p]
  by (simp add: model_def)

theorem model_is_one_input_two_hidden_layers_witness:
  "list_all module_ok (model zero_parameters)
   \<and> (\<exists>y. sequential (model zero_parameters) [Const 1] = Inr [y] \<and> value_of (\<lambda>_. 0) y = 0)"
proof -
  have ok: "list_all module_ok (model zero_parameters)" by (rule zero_parameters_ok)
  from model_is_one_input_two_hidden_layers[OF ok, of "Const 1"] obtain y where
    y: "sequential (model zero_parameters) [Const 1] = Inr [y]"
    and v: "\<forall>env. value_of env y =
              (\<Sum>j<20. weight3 zero_parameters ! 0 ! j *
                 tanh ((\<Sum>i<20. weight2 zero_parameters ! j ! i *
                          tanh (weight1 zero_parameters ! i ! 0 * value_of env (Const 1)
                                + bias1 zero_parameters ! i))
                       + bias2 zero_parameters ! j))
              + bias3 zero_parameters ! 0"
    by blast
  have "value_of (\<lambda>_. 0) y = 0"
    unfolding v[rule_format] by (simp add: zero_parameters_def)
  with ok y show ?thesis by blast
qed

section \<open>The physics informed loss (exercise 1.3)\<close>

text \<open>
  \<^verbatim>\<open>
  t = torch.linspace(t_min, t_max, N_t, requires_grad=True).reshape(N_t, 1)
  t_zero = torch.tensor([0.0], requires_grad=True)

  loss_fn_ode = torch.nn.MSELoss()
  loss_fn_initial_position = torch.nn.MSELoss()
  loss_fn_initial_speed = torch.nn.MSELoss()

  for k in range(train_iterations):
      ### Loss for the differential equation: u_tt = D*(u_t)^2 - g
      u = ...
      u_t = ...
      loss_ode = loss_fn_ode(..., ...)
      ### Loss for initial condition: u(0) = H
      u_zero = ...
      loss_initial_position = loss_fn_initial_position(..., ...)
      ### Loss for the initial velocity: u_t(0) = 0
      loss_initial_speed = loss_fn_initial_speed(..., ...)
      ### Add all loss terms
      total_loss = loss_ode + loss_initial_position + loss_initial_speed
  \<close>
  \<open>MSELoss()\<close> is the mean of the squared differences of its two arguments. The three
  loss objects and the sum are the code of the notebook.
\<close>

definition MSELoss :: "tensor1 \<Rightarrow> tensor1 \<Rightarrow> real" where
  "MSELoss input target =
     sum_list (map2 (\<lambda>a b. (a - b)\<^sup>2) input target) / real (length input)"

definition loss_fn_ode :: "tensor1 \<Rightarrow> tensor1 \<Rightarrow> real" where
  "loss_fn_ode = MSELoss"

definition loss_fn_initial_position :: "tensor1 \<Rightarrow> tensor1 \<Rightarrow> real" where
  "loss_fn_initial_position = MSELoss"

definition loss_fn_initial_speed :: "tensor1 \<Rightarrow> tensor1 \<Rightarrow> real" where
  "loss_fn_initial_speed = MSELoss"

definition t_grid :: tensor1 where "t_grid = linspace t_min t_max N_t"

definition t_zero :: tensor1 where "t_zero = [0.0]"

text \<open>The value of a graph over the time, the single leaf of a row of the batch.\<close>

definition at_time :: "node \<Rightarrow> real \<Rightarrow> real" where
  "at_time y x = value_of ((\<lambda>_. 0)(0 := x)) y"

text \<open>
  Modelled from the spec: the arguments of the three loss calls, which the notebook leaves
  to the students (\<open>...\<close>). After the comments of the cell and section 4.4 of the
  specification: the network output \<open>u\<close> on the time grid, its time derivative \<open>u_t\<close> by
  automatic differentiation and \<open>u_tt\<close> by differentiating \<open>u_t\<close> again; the residual of
  the equation compares \<open>u_tt\<close> with \<open>D u_t^2 - g\<close>, the initial position compares the
  output at \<open>t_zero\<close> with \<open>H\<close>, the initial velocity compares the derivative at \<open>t_zero\<close>
  with \<open>0\<close>.
\<close>

definition total_loss :: "parameters \<Rightarrow> error + real" where
  "total_loss p =
     (case sequential (model p) [Leaf 0] of
        Inl e \<Rightarrow> Inl e
      | Inr out \<Rightarrow>
          (case out of
             [u] \<Rightarrow>
               (let u_t = grad 0 u;
                    u_tt = grad 0 u_t;
                    loss_ode = loss_fn_ode (map (at_time u_tt) t_grid)
                                 (map (\<lambda>x. D * (at_time u_t x)\<^sup>2 - g) t_grid);
                    loss_initial_position = loss_fn_initial_position (map (at_time u) t_zero) [H];
                    loss_initial_speed = loss_fn_initial_speed (map (at_time u_t) t_zero) [0.0]
                in Inr (loss_ode + loss_initial_position + loss_initial_speed))
           | _ \<Rightarrow> Inl RuntimeError))"

lemma at_time_deriv: "(at_time y has_field_derivative at_time (grad 0 y) x) (at x)"
  using grad_sound[of "\<lambda>_. 0" 0 y x] unfolding at_time_def[abs_def] .

lemma MSELoss_map:
  "MSELoss (map a xs) (map b xs) = (\<Sum>x\<leftarrow>xs. (a x - b x)\<^sup>2) / real (length xs)"
  by (simp add: MSELoss_def zip_map_map zip_same_conv_map comp_def)

lemma MSELoss_single: "MSELoss [a] [b] = (a - b)\<^sup>2"
  by (simp add: MSELoss_def)

lemma length_t_grid: "length t_grid = 50"
  by (simp add: t_grid_def linspace_def N_t_def)

text \<open>
  C3: in the physics informed training loop, with \<open>D = 0.02\<close>, the total loss of an
  iteration is the unweighted sum of exactly three terms, each a mean squared error of its
  own: the residual of the equation, the second time derivative of the network against
  \<open>D u_t^2 - g\<close> on the 50 grid points; the initial position, the output at \<open>t = 0\<close>
  against \<open>H\<close>; the initial velocity, the time derivative at \<open>t = 0\<close> against \<open>0\<close>. Here
  \<open>u\<close> is the function the network computes, \<open>u_t\<close> its derivative and \<open>u_tt\<close> the
  derivative of \<open>u_t\<close>.
\<close>

theorem total_loss_is_sum_of_three:
  assumes "list_all module_ok (model p)"
  shows "\<exists>u u_t u_tt.
           (\<forall>x. u x =
              (\<Sum>j<20. weight3 p ! 0 ! j *
                 tanh ((\<Sum>i<20. weight2 p ! j ! i * tanh (weight1 p ! i ! 0 * x + bias1 p ! i))
                       + bias2 p ! j))
              + bias3 p ! 0)
         \<and> (\<forall>x. (u has_field_derivative u_t x) (at x))
         \<and> (\<forall>x. (u_t has_field_derivative u_tt x) (at x))
         \<and> total_loss p =
             Inr ((\<Sum>x\<leftarrow>t_grid. (u_tt x - (D * (u_t x)\<^sup>2 - g))\<^sup>2) / 50
                  + (u 0 - H)\<^sup>2
                  + (u_t 0 - 0)\<^sup>2)"
proof -
  from model_forward[OF assms, of "Leaf 0"] obtain y where
    seq: "sequential (model p) [Leaf 0] = Inr [y]" and
    val: "\<And>env. value_of env y =
              (\<Sum>j<20. weight3 p ! 0 ! j *
                 tanh ((\<Sum>i<20. weight2 p ! j ! i *
                          tanh (weight1 p ! i ! 0 * value_of env (Leaf 0) + bias1 p ! i))
                       + bias2 p ! j))
              + bias3 p ! 0"
    by blast
  have u: "\<forall>x. at_time y x =
              (\<Sum>j<20. weight3 p ! 0 ! j *
                 tanh ((\<Sum>i<20. weight2 p ! j ! i * tanh (weight1 p ! i ! 0 * x + bias1 p ! i))
                       + bias2 p ! j))
              + bias3 p ! 0"
    by (simp add: at_time_def val)
  have d1: "\<forall>x. (at_time y has_field_derivative at_time (grad 0 y) x) (at x)"
    by (simp add: at_time_deriv)
  have d2: "\<forall>x. (at_time (grad 0 y) has_field_derivative at_time (grad 0 (grad 0 y)) x) (at x)"
    by (simp add: at_time_deriv)
  have loss: "total_loss p =
      Inr ((\<Sum>x\<leftarrow>t_grid. (at_time (grad 0 (grad 0 y)) x
                              - (D * (at_time (grad 0 y) x)\<^sup>2 - g))\<^sup>2) / 50
           + (at_time y 0 - H)\<^sup>2
           + (at_time (grad 0 y) 0 - 0)\<^sup>2)"
    unfolding total_loss_def seq loss_fn_ode_def loss_fn_initial_position_def
      loss_fn_initial_speed_def
    by (simp add: Let_def MSELoss_map length_t_grid t_zero_def MSELoss_single)
  from u d1 d2 loss show ?thesis by blast
qed

theorem total_loss_is_sum_of_three_witness:
  "list_all module_ok (model zero_parameters) \<and> total_loss zero_parameters = Inr (g\<^sup>2 + H\<^sup>2)"
proof -
  have ok: "list_all module_ok (model zero_parameters)" by (rule zero_parameters_ok)
  from total_loss_is_sum_of_three[OF ok] obtain u u_t u_tt where
    u: "\<forall>x. u x =
              (\<Sum>j<20. weight3 zero_parameters ! 0 ! j *
                 tanh ((\<Sum>i<20. weight2 zero_parameters ! j ! i *
                          tanh (weight1 zero_parameters ! i ! 0 * x + bias1 zero_parameters ! i))
                       + bias2 zero_parameters ! j))
              + bias3 zero_parameters ! 0"
    and d1: "\<forall>x. (u has_field_derivative u_t x) (at x)"
    and d2: "\<forall>x. (u_t has_field_derivative u_tt x) (at x)"
    and loss: "total_loss zero_parameters =
             Inr ((\<Sum>x\<leftarrow>t_grid. (u_tt x - (D * (u_t x)\<^sup>2 - g))\<^sup>2) / 50
                  + (u 0 - H)\<^sup>2
                  + (u_t 0 - 0)\<^sup>2)"
    by blast
  have u0: "u = (\<lambda>x. 0)"
  proof
    fix x show "u x = 0"
      unfolding u[rule_format] by (simp add: zero_parameters_def)
  qed
  have ut0: "u_t x = 0" for x
    using d1[rule_format, of x] unfolding u0 by (rule DERIV_unique) simp
  then have ut: "u_t = (\<lambda>x. 0)" by auto
  have utt0: "u_tt x = 0" for x
    using d2[rule_format, of x] unfolding ut by (rule DERIV_unique) simp
  have "total_loss zero_parameters = Inr (g\<^sup>2 + H\<^sup>2)"
    unfolding loss by (simp add: u0 ut0 utt0 sum_list_triv length_t_grid power2_commute)
  with ok show ?thesis by simp
qed

section \<open>The data set of exercise 1.2\<close>

text \<open>
  The notebook leaves the construction to the students:
  \<^verbatim>\<open>
  ### TODO: Create and fill the tensors
  input_training  = ...
  output_training = ...
  \<close>
  and describes it:
  \<open>input_training.shape = [N_D_train, N_t_train, 2]\<close>,
  \<open>output_training.shape = [N_D_train, N_t_train, 1]\<close>,
  \<open>input_training[i, k] = (D_i, t_k)\<close>, \<open>output_training[i, k] = u(t_k; D_i)\<close>, with \<open>D\<close>
  sampled by \<open>torch.rand\<close>, an equidistant grid for \<open>t\<close> by \<open>torch.linspace\<close>, and the
  hint to place the \<open>D\<close> values with \<open>repeat_interleave(N_t_train)\<close> and
  \<open>reshape(N_D_train, N_t_train)\<close>.
\<close>

definition repeat_interleave :: "'a list \<Rightarrow> nat \<Rightarrow> 'a list" where
  "repeat_interleave xs n = concat (map (replicate n) xs)"

definition reshape2 :: "'a list \<Rightarrow> nat \<Rightarrow> nat \<Rightarrow> error + 'a list list" where
  "reshape2 xs r c =
     (if length xs \<noteq> r * c then Inl RuntimeError
      else Inr (map (\<lambda>i. take c (drop (i * c) xs)) [0..<r]))"

text \<open>
  Modelled from the spec: the construction of the data set, which is not in the sources,
  after the description in the notebook and section 4.1 of the specification. The
  argument \<open>rand\<close> is the result of \<open>torch.rand(n_D)\<close>, numbers in \<open>[0, 1)\<close>; that they are
  independent and uniformly distributed is a property of the library and has no
  counterpart here: the theorem holds for every outcome of the draw.
\<close>

definition create_input :: "real list \<Rightarrow> nat \<Rightarrow> nat \<Rightarrow> error + tensor3" where
  "create_input rand n_D n_t =
     (let D_values = map (\<lambda>r. D_min + (D_max - D_min) * r) rand;
          t_values = linspace t_min t_max n_t
      in case reshape2 (repeat_interleave D_values n_t) n_D n_t of
           Inl e \<Rightarrow> Inl e
         | Inr D_matrix \<Rightarrow> Inr (map (\<lambda>row. map2 (\<lambda>d t. [d, t]) row t_values) D_matrix))"

definition create_output :: "tensor3 \<Rightarrow> tensor3" where
  "create_output X = map (map (\<lambda>p. [u_closed (p ! 1) (p ! 0)])) X"

definition input_training :: "real list \<Rightarrow> error + tensor3" where
  "input_training rand = create_input rand N_D_train N_t_train"

definition output_training :: "real list \<Rightarrow> error + tensor3" where
  "output_training rand =
     (case input_training rand of Inl e \<Rightarrow> Inl e | Inr X \<Rightarrow> Inr (create_output X))"

lemma length_repeat_interleave: "length (repeat_interleave xs n) = length xs * n"
  by (induction xs) (simp_all add: repeat_interleave_def)

lemma chunk_repeat_interleave:
  "i < length xs \<Longrightarrow> take n (drop (i * n) (repeat_interleave xs n)) = replicate n (xs ! i)"
proof (induction xs arbitrary: i)
  case Nil
  then show ?case by simp
next
  case (Cons x xs)
  show ?case
  proof (cases i)
    case 0
    then show ?thesis by (simp add: repeat_interleave_def)
  next
    case (Suc j)
    then have "j < length xs" using Cons.prems by simp
    from Cons.IH[OF this] show ?thesis
      using Suc by (simp add: repeat_interleave_def)
  qed
qed

lemma reshape2_repeat_interleave:
  "reshape2 (repeat_interleave xs n) (length xs) n = Inr (map (replicate n) xs)"
proof -
  have "map (\<lambda>i. take n (drop (i * n) (repeat_interleave xs n))) [0..<length xs]
      = map (replicate n) xs"
    by (rule nth_equalityI) (simp_all add: chunk_repeat_interleave)
  then show ?thesis
    by (simp add: reshape2_def length_repeat_interleave)
qed

lemma create_input_eq:
  "create_input rand (length rand) n =
     Inr (map (\<lambda>r. map (\<lambda>t. [D_min + (D_max - D_min) * r, t]) (linspace t_min t_max n)) rand)"
proof -
  have m: "map2 (\<lambda>d t. [d, t]) (replicate n d) (linspace t_min t_max n)
         = map (\<lambda>t. [d, t]) (linspace t_min t_max n)" for d :: real
    by (rule nth_equalityI) (simp_all add: length_linspace)
  show ?thesis
    unfolding create_input_def Let_def
    using reshape2_repeat_interleave[of "map (\<lambda>r. D_min + (D_max - D_min) * r) rand" n]
    by (simp add: m comp_def)
qed

lemma D_value_range:
  assumes "0 \<le> r" "r < 1"
  shows "0.01 \<le> D_min + (D_max - D_min) * r" "D_min + (D_max - D_min) * r \<le> 1.0"
  using assms by (simp_all add: D_min_def D_max_def)

text \<open>
  C2: for \<open>N_D_train = 500\<close> and \<open>N_t_train = 50\<close> the data set has
  \<open>input_training\<close> of shape \<open>(500, 50, 2)\<close> and \<open>output_training\<close> of shape
  \<open>(500, 50, 1)\<close>; \<open>input_training[i, k]\<close> is the pair \<open>(D_i, t_k)\<close> with \<open>D_i\<close> the
  \<open>i\<close>-th draw, in \<open>[0.01, 1.0]\<close>; the slice \<open>input_training[i, :, 1]\<close> is the same
  equidistant grid of 50 points over \<open>[0, 3]\<close> for every \<open>i\<close>; and
  \<open>output_training[i, k]\<close> is the closed form \<open>u(t_k; D_i)\<close>.
\<close>

theorem training_set_shape_and_content:
  assumes len: "length rand = N_D_train" and rng: "set rand \<subseteq> {0..<1}"
  shows "\<exists>X Y. input_training rand = Inr X \<and> output_training rand = Inr Y
           \<and> has_shape3 500 50 2 X \<and> has_shape3 500 50 1 Y
           \<and> (\<forall>i<500. map (\<lambda>p. p ! 1) (X ! i) = linspace 0 3 50)
           \<and> (\<forall>i<500. \<forall>k<50.
                 X ! i ! k = [D_min + (D_max - D_min) * rand ! i, 3 * real k / 49]
               \<and> 0.01 \<le> X ! i ! k ! 0 \<and> X ! i ! k ! 0 \<le> 1.0
               \<and> Y ! i ! k = [u_closed (X ! i ! k ! 1) (X ! i ! k ! 0)])"
proof -
  define X where
    "X = map (\<lambda>r. map (\<lambda>t. [D_min + (D_max - D_min) * r, t]) (linspace t_min t_max 50)) rand"
  have l: "length rand = 500" using len by (simp add: N_D_train_def)
  have inp: "input_training rand = Inr X"
    unfolding input_training_def X_def
    using create_input_eq[of rand N_t_train] by (simp add: len N_t_train_def)
  have out: "output_training rand = Inr (create_output X)"
    by (simp add: output_training_def inp)
  have shX: "has_shape3 500 50 2 X"
    by (simp add: has_shape3_iff X_def l length_linspace)
  have shY: "has_shape3 500 50 1 (create_output X)"
    by (simp add: has_shape3_iff X_def create_output_def l length_linspace)
  have grid: "map (\<lambda>p. p ! 1) (X ! i) = linspace 0 3 50" if "i < 500" for i
    using that by (simp add: X_def l comp_def t_min_def t_max_def)
  have entry: "X ! i ! k = [D_min + (D_max - D_min) * rand ! i, 3 * real k / 49]
               \<and> 0.01 \<le> X ! i ! k ! 0 \<and> X ! i ! k ! 0 \<le> 1.0
               \<and> create_output X ! i ! k = [u_closed (X ! i ! k ! 1) (X ! i ! k ! 0)]"
    if i: "i < 500" and k: "k < 50" for i k
  proof -
    have "rand ! i \<in> set rand" using i l by simp
    then have r: "0 \<le> rand ! i" "rand ! i < 1" using rng by auto
    have x: "X ! i ! k = [D_min + (D_max - D_min) * rand ! i, 3 * real k / 49]"
      using i k by (simp add: X_def l length_linspace nth_linspace t_min_def t_max_def)
    have y: "create_output X ! i ! k = [u_closed (X ! i ! k ! 1) (X ! i ! k ! 0)]"
      using i k by (simp add: create_output_def X_def l length_linspace)
    show ?thesis
      using x y D_value_range[OF r] by simp
  qed
  show ?thesis
    using inp out shX shY grid entry by blast
qed

theorem training_set_shape_and_content_witness:
  "length (replicate 500 (0::real)) = N_D_train
   \<and> set (replicate 500 (0::real)) \<subseteq> {0..<1}
   \<and> (\<exists>X. input_training (replicate 500 0) = Inr X \<and> X ! 499 ! 49 = [0.01, 3])"
proof -
  have a: "length (replicate 500 (0::real)) = N_D_train" by (simp add: N_D_train_def)
  have b: "set (replicate 500 (0::real)) \<subseteq> {0..<1}" by simp
  from training_set_shape_and_content[OF a b] obtain X where
    X: "input_training (replicate 500 0) = Inr X"
    and e: "\<forall>i<500. \<forall>k<50.
              X ! i ! k = [D_min + (D_max - D_min) * replicate 500 0 ! i, 3 * real k / 49]"
    by blast
  have "X ! 499 ! 49 = [D_min + (D_max - D_min) * replicate 500 0 ! 499, 3 * real 49 / 49]"
    using e by simp
  then have "X ! 499 ! 49 = [0.01, 3]" by (simp add: D_min_def)
  with a b X show ?thesis by blast
qed

end
